theory Spec2Isabelle
  imports Main
begin

section \<open>Bitbucket Server reporters of Buildbot\<close>

text \<open>
  A shallow embedding of \<^verbatim>\<open>master/buildbot/reporters/bitbucketserver.py\<close>:
  the status reporter \<^verbatim>\<open>BitbucketServerStatusPush\<close> and the pull-request
  comment reporter \<^verbatim>\<open>BitbucketServerPRCommentPush\<close>.

  Both methods run for their effects (log lines and HTTP POSTs). The model returns
  these effects as a list of events in the order in which they happen, together with
  the state of the HTTP client after the call and the exception that left the method,
  if one did.
\<close>

subsection \<open>Python values, exceptions, effects\<close>

text \<open>
  A property value. The source says of \<^verbatim>\<open>got_revision\<close> that it
  ``could be a string, a dictionary or None''; a dictionary maps a codebase to a
  revision, which is a string or None. The dictionary is an association list whose
  first entry for a key is the key's value.
\<close>

datatype pyvalue =
    PyNone
  | PyStr string
  | PyDict "(string \<times> string option) list"

datatype exn =
    KeyError string
  | TypeError

datatype logarg =
    ArgInt int
  | ArgStr string
  | ArgVal pyvalue

text \<open>
  \<^verbatim>\<open>log.info(fmt, **kw)\<close>, \<^verbatim>\<open>log.error(fmt, **kw)\<close> and
  \<^verbatim>\<open>self._http.post(path, json=payload)\<close>. A JSON payload is a dictionary with
  string values, kept in the order in which the source fills it.
\<close>

type_synonym json = "(string \<times> string) list"

datatype event =
    LogInfo string "(string \<times> logarg) list"
  | LogError string "(string \<times> logarg) list"
  | POST string json

record response =
  code :: int
  content :: string

text \<open>
  The HTTP client service: \<^verbatim>\<open>post\<close> answers every request with a response
  and may change the client's state \<open>'h\<close>, so that two equal requests may be answered
  differently.
\<close>

type_synonym 'h transport = "'h \<Rightarrow> string \<Rightarrow> json \<Rightarrow> response \<times> 'h"

subsection \<open>Builds\<close>

type_synonym properties = "string \<rightharpoonup> pyvalue"

record sourcestamp =
  codebase :: string
  revision :: "string option"

record buildset =
  sourcestamps :: "sourcestamp list"

record build =
  properties :: properties
  results :: "int option"
  complete :: bool
  url :: string
  buildset :: buildset

text \<open>\<^verbatim>\<open>Properties.getProperty(name, default)\<close>.\<close>

definition getProperty :: "properties \<Rightarrow> string \<Rightarrow> pyvalue \<Rightarrow> pyvalue" where
  "getProperty props name dflt = (case props name of None \<Rightarrow> dflt | Some v \<Rightarrow> v)"

text \<open>
  A renderable: a plain string or an \<^verbatim>\<open>Interpolate\<close> object. The empty string is
  the only one that is false in a condition. Rendering itself belongs to the property
  subsystem and is a parameter \<open>render\<close> of the model.
\<close>

datatype template =
    Plain string
  | Interpolate string

fun truthy :: "template \<Rightarrow> bool" where
  "truthy (Plain s) = (s \<noteq> [])"
| "truthy (Interpolate s) = True"

type_synonym renderer = "properties \<Rightarrow> template \<Rightarrow> string"

subsection \<open>Constants of the module\<close>

definition INPROGRESS :: string where
  "INPROGRESS = ''INPROGRESS''"

definition SUCCESSFUL :: string where
  "SUCCESSFUL = ''SUCCESSFUL''"

definition FAILED :: string where
  "FAILED = ''FAILED''"

text \<open>\<^verbatim>\<open>STATUS_API_URL.format(sha=sha)\<close> and \<^verbatim>\<open>COMMENT_API_URL.format(path=path)\<close>.\<close>

definition STATUS_API_URL :: "string \<Rightarrow> string" where
  "STATUS_API_URL sha = ''/rest/build-status/1.0/commits/'' @ sha"

definition COMMENT_API_URL :: "string \<Rightarrow> string" where
  "COMMENT_API_URL path = ''/rest/api/1.0'' @ path @ ''/comments''"

definition HTTP_PROCESSED :: int where
  "HTTP_PROCESSED = 204"

definition HTTP_CREATED :: int where
  "HTTP_CREATED = 201"

text \<open>
  \<^verbatim>\<open>SUCCESS\<close> is imported from \<^verbatim>\<open>buildbot.process.results\<close>, where it is the
  first of the result codes. The theorems hold whatever its value is; only the examples
  use it.
\<close>

definition SUCCESS :: int where
  "SUCCESS = 0"

subsection \<open>BitbucketServerStatusPush\<close>

record status_push =
  key :: template
  statusName :: "template option"
  endDescription :: template
  startDescription :: template
  verbose :: bool

text \<open>
  \<^verbatim>\<open>reconfigService\<close>, as far as it sets the fields read by \<^verbatim>\<open>send\<close>:
  \<^verbatim>\<open>x or d\<close> is \<open>d\<close> when \<open>x\<close> is None or false.
\<close>

definition or_default :: "template option \<Rightarrow> template \<Rightarrow> template" where
  "or_default x d = (case x of None \<Rightarrow> d | Some t \<Rightarrow> if truthy t then t else d)"

definition reconfigService ::
  "template option \<Rightarrow> template option \<Rightarrow> template option \<Rightarrow> template option \<Rightarrow> bool \<Rightarrow> status_push"
where
  "reconfigService key_arg statusName_arg startDescription_arg endDescription_arg verbose_arg =
     \<lparr> key = or_default key_arg (Interpolate ''%(prop:buildername)s''),
       statusName = statusName_arg,
       endDescription = or_default endDescription_arg (Plain ''Build done.''),
       startDescription = or_default startDescription_arg (Plain ''Build started.''),
       verbose = verbose_arg \<rparr>"

text \<open>
  Lines 66 to 71 of \<^verbatim>\<open>send\<close>: the state sent to Bitbucket and the description
  that goes with it.
\<close>

definition build_status :: "status_push \<Rightarrow> build \<Rightarrow> string \<times> template" where
  "build_status self b =
     (if complete b
      then (if results b = Some SUCCESS then SUCCESSFUL else FAILED, endDescription self)
      else (INPROGRESS, startDescription self))"

text \<open>
  Lines 76 to 82: the commit hash of a source stamp. Subscripting a dictionary with a
  key it does not have raises \<^verbatim>\<open>KeyError\<close>.
\<close>

definition resolve_sha :: "pyvalue \<Rightarrow> sourcestamp \<Rightarrow> exn + string option" where
  "resolve_sha got_revision ss =
     (case revision ss of
        Some sha \<Rightarrow> Inr (Some sha)
      | None \<Rightarrow>
          (case got_revision of
             PyDict d \<Rightarrow>
               (case map_of d (codebase ss) of
                  None \<Rightarrow> Inl (KeyError (codebase ss))
                | Some v \<Rightarrow> Inr v)
           | PyStr s \<Rightarrow> Inr (Some s)
           | PyNone \<Rightarrow> Inr None))"

text \<open>Lines 88 to 97: the payload of one status.\<close>

definition status_payload ::
  "status_push \<Rightarrow> renderer \<Rightarrow> build \<Rightarrow> string \<Rightarrow> template \<Rightarrow> json"
where
  "status_payload self render b status description =
     [(''state'', status), (''url'', url b), (''key'', render (properties b) (key self))]
     @ (if truthy description then [(''description'', render (properties b) description)] else [])
     @ (case statusName self of
          None \<Rightarrow> []
        | Some n \<Rightarrow> if truthy n then [(''name'', render (properties b) n)] else [])"

text \<open>Lines 98 to 107: the POST and the log line that reports its response.\<close>

definition post_status ::
  "status_push \<Rightarrow> 'h transport \<Rightarrow> string \<Rightarrow> string \<Rightarrow> json \<Rightarrow> 'h \<Rightarrow> event list \<times> 'h"
where
  "post_status self post status sha payload h =
     (let (response, h') = post h (STATUS_API_URL sha) payload in
      (POST (STATUS_API_URL sha) payload #
         (if code response = HTTP_PROCESSED
          then (if verbose self
                then [LogInfo ''Status \"{status}\" sent for {sha}.''
                        [(''status'', ArgStr status), (''sha'', ArgStr sha)]]
                else [])
          else [LogError ''{code}: Unable to send Bitbucket Server status: {content}''
                  [(''code'', ArgInt (code response)), (''content'', ArgStr (content response))]]),
       h'))"

text \<open>
  Lines 75 to 107: the loop over the source stamps. An exception ends the loop; the
  effects of the source stamps before it have happened.
\<close>

fun send_sourcestamps ::
  "status_push \<Rightarrow> renderer \<Rightarrow> 'h transport \<Rightarrow> build \<Rightarrow> string \<Rightarrow> template \<Rightarrow> pyvalue \<Rightarrow>
   sourcestamp list \<Rightarrow> 'h \<Rightarrow> event list \<times> 'h \<times> exn option"
where
  "send_sourcestamps self render post b status description got_revision [] h = ([], h, None)"
| "send_sourcestamps self render post b status description got_revision (ss # rest) h =
     (case resolve_sha got_revision ss of
        Inl e \<Rightarrow> ([], h, Some e)
      | Inr None \<Rightarrow>
          (let (evs, h', r) =
             send_sourcestamps self render post b status description got_revision rest h
           in (LogError ''Unable to get the commit hash'' [] # evs, h', r))
      | Inr (Some sha) \<Rightarrow>
          (let (evs1, h1) =
             post_status self post status sha
               (status_payload self render b status description) h;
               (evs, h', r) =
             send_sourcestamps self render post b status description got_revision rest h1
           in (evs1 @ evs, h', r)))"

definition send ::
  "status_push \<Rightarrow> renderer \<Rightarrow> 'h transport \<Rightarrow> build \<Rightarrow> 'h \<Rightarrow> event list \<times> 'h \<times> exn option"
where
  "send self render post b h =
     (let (status, description) = build_status self b;
          got_revision = getProperty (properties b) ''got_revision'' PyNone
      in send_sourcestamps self render post b status description got_revision
           (sourcestamps (buildset b)) h)"

subsection \<open>BitbucketServerPRCommentPush\<close>

text \<open>
  \<^verbatim>\<open>isMessageNeeded\<close>; \<open>base\<close> is the answer of
  \<^verbatim>\<open>NotifierBase.isMessageNeeded\<close>.
\<close>

definition isMessageNeeded :: "(build \<Rightarrow> bool) \<Rightarrow> build \<Rightarrow> bool" where
  "isMessageNeeded base b =
     (if ''pullrequesturl'' \<in> dom (properties b) then base b else False)"

text \<open>
  A dictionary cannot be hashed; None and strings can.
\<close>

fun hashable :: "pyvalue \<Rightarrow> bool" where
  "hashable (PyDict d) = False"
| "hashable v = True"

text \<open>
  \<^verbatim>\<open>pr_urls.add(v)\<close>. The set is the list of its elements in the order in which
  they were first added; Python leaves the order of a set open, and the theorems below
  do not depend on it. Adding a value that cannot be hashed raises \<^verbatim>\<open>TypeError\<close>.
\<close>

definition set_add :: "pyvalue list \<Rightarrow> pyvalue \<Rightarrow> exn + pyvalue list" where
  "set_add s v =
     (if hashable v then Inr (if v \<in> set s then s else s @ [v]) else Inl TypeError)"

text \<open>Lines 150 to 153: the pull-request URLs of the builds.\<close>

fun collect_pr_urls :: "build list \<Rightarrow> pyvalue list \<Rightarrow> exn + pyvalue list" where
  "collect_pr_urls [] pr_urls = Inr pr_urls"
| "collect_pr_urls (b # builds) pr_urls =
     (case set_add pr_urls (getProperty (properties b) ''pullrequesturl'' PyNone) of
        Inl e \<Rightarrow> Inl e
      | Inr pr_urls' \<Rightarrow> collect_pr_urls builds pr_urls')"

text \<open>
  Lines 154 to 169: one comment for each URL. \<open>url_path\<close> stands for
  \<^verbatim>\<open>bytes2NativeString(urlparse(unicode2bytes(pr_url)).path)\<close>; the source assumes
  that the URL is well formed.
\<close>

fun post_comments ::
  "bool \<Rightarrow> 'h transport \<Rightarrow> (pyvalue \<Rightarrow> string) \<Rightarrow> string \<Rightarrow> pyvalue list \<Rightarrow> 'h \<Rightarrow> event list \<times> 'h"
where
  "post_comments verbose_flag post url_path body [] h = ([], h)"
| "post_comments verbose_flag post url_path body (pr_url # rest) h =
     (let payload = [(''text'', body)];
          (response, h1) = post h (COMMENT_API_URL (url_path pr_url)) payload;
          (evs, h') = post_comments verbose_flag post url_path body rest h1
      in (POST (COMMENT_API_URL (url_path pr_url)) payload #
            (if code response = HTTP_CREATED
             then (if verbose_flag
                   then [LogInfo ''{comment} sent to {url}''
                           [(''comment'', ArgStr body), (''url'', ArgVal pr_url)]]
                   else [])
             else [LogError ''{code}: Unable to send a comment: {content}''
                     [(''code'', ArgInt (code response)), (''content'', ArgStr (content response))]])
            @ evs,
          h'))"

definition sendMessage ::
  "bool \<Rightarrow> 'h transport \<Rightarrow> (pyvalue \<Rightarrow> string) \<Rightarrow> string \<Rightarrow> build list \<Rightarrow> 'h \<Rightarrow>
   event list \<times> 'h \<times> exn option"
where
  "sendMessage verbose_flag post url_path body builds h =
     (case collect_pr_urls builds [] of
        Inl e \<Rightarrow> ([], h, Some e)
      | Inr pr_urls \<Rightarrow>
          (let (evs, h') = post_comments verbose_flag post url_path body pr_urls h
           in (evs, h', None)))"

subsection \<open>Collaborators that raise\<close>

text \<open>
  Neither method has a \<^verbatim>\<open>try\<close>. In the definitions above the renderer, the
  HTTP client and the URL parser always return. Here they may raise instead: an
  exception of type \<open>'e\<close> is the left value of their result. The same holds of
  \<^verbatim>\<open>response.content()\<close>, which the source calls only for a response that does
  not carry the expected code. An exception ends the method at the call that raises it;
  the effects before it have happened. The event \<open>POST\<close> stands for the call of
  \<^verbatim>\<open>self._http.post\<close>, and is there also when the call raises.
\<close>

datatype 'e raised_exn =
    InFile exn
  | Collaborator 'e

record 'e response_x =
  code_x :: int
  content_x :: "'e + string"

type_synonym ('h, 'e) transport_x = "'h \<Rightarrow> string \<Rightarrow> json \<Rightarrow> ('e + 'e response_x) \<times> 'h"

type_synonym 'e renderer_x = "properties \<Rightarrow> template \<Rightarrow> 'e + string"

text \<open>
  Lines 88 to 97, with a renderer that may raise: the key is rendered first, then the
  description, then the name.
\<close>

definition status_payload_x ::
  "status_push \<Rightarrow> 'e renderer_x \<Rightarrow> build \<Rightarrow> string \<Rightarrow> template \<Rightarrow> 'e + json"
where
  "status_payload_x self render b status description =
     (case render (properties b) (key self) of
        Inl e \<Rightarrow> Inl e
      | Inr k \<Rightarrow>
          (case (if truthy description
                 then (case render (properties b) description of
                         Inl e \<Rightarrow> Inl e
                       | Inr d \<Rightarrow> Inr [(''description'', d)])
                 else Inr []) of
             Inl e \<Rightarrow> Inl e
           | Inr d \<Rightarrow>
               (case (case statusName self of
                        None \<Rightarrow> Inr []
                      | Some n \<Rightarrow>
                          if truthy n
                          then (case render (properties b) n of
                                  Inl e \<Rightarrow> Inl e
                                | Inr v \<Rightarrow> Inr [(''name'', v)])
                          else Inr []) of
                  Inl e \<Rightarrow> Inl e
                | Inr n \<Rightarrow>
                    Inr ([(''state'', status), (''url'', url b), (''key'', k)] @ d @ n))))"

text \<open>Lines 76 to 107: the body of the loop of \<^verbatim>\<open>send\<close>, for one source stamp.\<close>

definition send_sourcestamp_x ::
  "status_push \<Rightarrow> 'e renderer_x \<Rightarrow> ('h, 'e) transport_x \<Rightarrow> build \<Rightarrow> string \<Rightarrow> template \<Rightarrow>
   pyvalue \<Rightarrow> sourcestamp \<Rightarrow> 'h \<Rightarrow> event list \<times> 'h \<times> 'e raised_exn option"
where
  "send_sourcestamp_x self render post b status description got_revision ss h =
     (case resolve_sha got_revision ss of
        Inl e \<Rightarrow> ([], h, Some (InFile e))
      | Inr None \<Rightarrow> ([LogError ''Unable to get the commit hash'' []], h, None)
      | Inr (Some sha) \<Rightarrow>
          (case status_payload_x self render b status description of
             Inl e \<Rightarrow> ([], h, Some (Collaborator e))
           | Inr payload \<Rightarrow>
               (case post h (STATUS_API_URL sha) payload of
                  (Inl e, h1) \<Rightarrow>
                    ([POST (STATUS_API_URL sha) payload], h1, Some (Collaborator e))
                | (Inr response, h1) \<Rightarrow>
                    if code_x response = HTTP_PROCESSED
                    then (POST (STATUS_API_URL sha) payload #
                            (if verbose self
                             then [LogInfo ''Status \"{status}\" sent for {sha}.''
                                     [(''status'', ArgStr status), (''sha'', ArgStr sha)]]
                             else []),
                          h1, None)
                    else
                      (case content_x response of
                         Inl e \<Rightarrow>
                           ([POST (STATUS_API_URL sha) payload], h1, Some (Collaborator e))
                       | Inr c \<Rightarrow>
                           ([POST (STATUS_API_URL sha) payload,
                             LogError ''{code}: Unable to send Bitbucket Server status: {content}''
                               [(''code'', ArgInt (code_x response)), (''content'', ArgStr c)]],
                            h1, None)))))"

text \<open>Lines 75 to 107: the loop ends at the first source stamp that raises.\<close>

fun send_sourcestamps_x ::
  "status_push \<Rightarrow> 'e renderer_x \<Rightarrow> ('h, 'e) transport_x \<Rightarrow> build \<Rightarrow> string \<Rightarrow> template \<Rightarrow>
   pyvalue \<Rightarrow> sourcestamp list \<Rightarrow> 'h \<Rightarrow> event list \<times> 'h \<times> 'e raised_exn option"
where
  "send_sourcestamps_x self render post b status description got_revision [] h = ([], h, None)"
| "send_sourcestamps_x self render post b status description got_revision (ss # rest) h =
     (case send_sourcestamp_x self render post b status description got_revision ss h of
        (evs1, h1, Some e) \<Rightarrow> (evs1, h1, Some e)
      | (evs1, h1, None) \<Rightarrow>
          (case send_sourcestamps_x self render post b status description got_revision rest h1 of
             (evs, h', r) \<Rightarrow> (evs1 @ evs, h', r)))"

definition send_x ::
  "status_push \<Rightarrow> 'e renderer_x \<Rightarrow> ('h, 'e) transport_x \<Rightarrow> build \<Rightarrow> 'h \<Rightarrow>
   event list \<times> 'h \<times> 'e raised_exn option"
where
  "send_x self render post b h =
     (let (status, description) = build_status self b;
          got_revision = getProperty (properties b) ''got_revision'' PyNone
      in send_sourcestamps_x self render post b status description got_revision
           (sourcestamps (buildset b)) h)"

text \<open>Lines 155 to 169: the body of the second loop of \<^verbatim>\<open>sendMessage\<close>, for one URL.\<close>

definition post_comment_x ::
  "bool \<Rightarrow> ('h, 'e) transport_x \<Rightarrow> (pyvalue \<Rightarrow> 'e + string) \<Rightarrow> string \<Rightarrow> pyvalue \<Rightarrow> 'h \<Rightarrow>
   event list \<times> 'h \<times> 'e raised_exn option"
where
  "post_comment_x verbose_flag post url_path body pr_url h =
     (case url_path pr_url of
        Inl e \<Rightarrow> ([], h, Some (Collaborator e))
      | Inr path \<Rightarrow>
          (case post h (COMMENT_API_URL path) [(''text'', body)] of
             (Inl e, h1) \<Rightarrow>
               ([POST (COMMENT_API_URL path) [(''text'', body)]], h1, Some (Collaborator e))
           | (Inr response, h1) \<Rightarrow>
               if code_x response = HTTP_CREATED
               then (POST (COMMENT_API_URL path) [(''text'', body)] #
                       (if verbose_flag
                        then [LogInfo ''{comment} sent to {url}''
                                [(''comment'', ArgStr body), (''url'', ArgVal pr_url)]]
                        else []),
                     h1, None)
               else
                 (case content_x response of
                    Inl e \<Rightarrow>
                      ([POST (COMMENT_API_URL path) [(''text'', body)]], h1, Some (Collaborator e))
                  | Inr c \<Rightarrow>
                      ([POST (COMMENT_API_URL path) [(''text'', body)],
                        LogError ''{code}: Unable to send a comment: {content}''
                          [(''code'', ArgInt (code_x response)), (''content'', ArgStr c)]],
                       h1, None))))"

fun post_comments_x ::
  "bool \<Rightarrow> ('h, 'e) transport_x \<Rightarrow> (pyvalue \<Rightarrow> 'e + string) \<Rightarrow> string \<Rightarrow> pyvalue list \<Rightarrow> 'h \<Rightarrow>
   event list \<times> 'h \<times> 'e raised_exn option"
where
  "post_comments_x verbose_flag post url_path body [] h = ([], h, None)"
| "post_comments_x verbose_flag post url_path body (pr_url # rest) h =
     (case post_comment_x verbose_flag post url_path body pr_url h of
        (evs1, h1, Some e) \<Rightarrow> (evs1, h1, Some e)
      | (evs1, h1, None) \<Rightarrow>
          (case post_comments_x verbose_flag post url_path body rest h1 of
             (evs, h', r) \<Rightarrow> (evs1 @ evs, h', r)))"

definition sendMessage_x ::
  "bool \<Rightarrow> ('h, 'e) transport_x \<Rightarrow> (pyvalue \<Rightarrow> 'e + string) \<Rightarrow> string \<Rightarrow> build list \<Rightarrow> 'h \<Rightarrow>
   event list \<times> 'h \<times> 'e raised_exn option"
where
  "sendMessage_x verbose_flag post url_path body builds h =
     (case collect_pr_urls builds [] of
        Inl e \<Rightarrow> ([], h, Some (InFile e))
      | Inr pr_urls \<Rightarrow> post_comments_x verbose_flag post url_path body pr_urls h)"

text \<open>
  A client that always returns, seen as one that may raise. With it, and with a renderer
  and a parser that always return, the definitions of this subsection give what the
  definitions above give (lemmas \<open>send_x_returning\<close> and \<open>sendMessage_x_returning\<close>).
\<close>

definition returning :: "'h transport \<Rightarrow> ('h, 'e) transport_x" where
  "returning post h path payload =
     (case post h path payload of
        (response, h') \<Rightarrow> (Inr \<lparr>code_x = code response, content_x = Inr (content response)\<rparr>, h'))"

subsection \<open>Reading the effects\<close>

fun is_post :: "event \<Rightarrow> bool" where
  "is_post (POST path payload) = True"
| "is_post _ = False"

definition posts :: "event list \<times> 'h \<times> exn option \<Rightarrow> event list" where
  "posts r = filter is_post (fst r)"

definition raised :: "event list \<times> 'h \<times> exn option \<Rightarrow> exn option" where
  "raised r = snd (snd r)"

subsection \<open>The build with other source stamps\<close>

text \<open>
  The theorems speak of the source stamps that \<^verbatim>\<open>send\<close> has already handled and
  of those still to come as builds of their own: the same build with another list of
  source stamps.
\<close>

definition with_sourcestamps :: "build \<Rightarrow> sourcestamp list \<Rightarrow> build" where
  "with_sourcestamps b sss = b\<lparr>buildset := (buildset b)\<lparr>sourcestamps := sss\<rparr>\<rparr>"

subsection \<open>Example inputs\<close>

text \<open>
  A renderer that gives the builder's name for every \<^verbatim>\<open>Interpolate\<close>, a client
  that answers every request with the same code and body and counts the requests, and
  a build.
\<close>

definition example_render :: renderer where
  "example_render props t =
     (case t of
        Plain s \<Rightarrow> s
      | Interpolate s \<Rightarrow> (case props ''buildername'' of Some (PyStr n) \<Rightarrow> n | _ \<Rightarrow> s))"

definition answering :: "int \<Rightarrow> string \<Rightarrow> nat transport" where
  "answering c body n path payload = (\<lparr>code = c, content = body\<rparr>, Suc n)"

definition example_build :: "bool \<Rightarrow> int option \<Rightarrow> properties \<Rightarrow> sourcestamp list \<Rightarrow> build" where
  "example_build c r props sss =
     \<lparr>properties = props, results = r, complete = c, url = ''http://ci/builds/7'',
      buildset = \<lparr>sourcestamps = sss\<rparr>\<rparr>"

definition example_stamps :: "sourcestamp list" where
  "example_stamps =
     [\<lparr>codebase = ''app'', revision = Some ''abc123''\<rparr>,
      \<lparr>codebase = ''lib'', revision = None\<rparr>,
      \<lparr>codebase = ''doc'', revision = Some ''d0c''\<rparr>]"

text \<open>
  The path of a URL on \<^verbatim>\<open>https://host\<close>, and a build of a pull request.
\<close>

definition example_url_path :: "pyvalue \<Rightarrow> string" where
  "example_url_path v = (case v of PyStr s \<Rightarrow> drop 12 s | _ \<Rightarrow> [])"

definition pr_build :: "string \<Rightarrow> build" where
  "pr_build u = example_build True (Some SUCCESS) [''pullrequesturl'' \<mapsto> PyStr u] []"

text \<open>
  The same inputs with collaborators that may raise: a client that refuses every request
  from the \<open>k\<close>-th on, and a parser that rejects one malformed URL as
  \<^verbatim>\<open>urlparse\<close> does.
\<close>

definition rendering :: "string renderer_x" where
  "rendering props t = Inr (example_render props t)"

definition answering_x :: "int \<Rightarrow> string \<Rightarrow> (nat, string) transport_x" where
  "answering_x c body = returning (answering c body)"

definition failing_from :: "nat \<Rightarrow> int \<Rightarrow> (nat, string) transport_x" where
  "failing_from k c n path payload =
     (if k \<le> n then Inl ''ConnectionRefusedError''
      else Inr \<lparr>code_x = c, content_x = Inr []\<rparr>, Suc n)"

definition example_urlparse :: "pyvalue \<Rightarrow> string + string" where
  "example_urlparse v =
     (if v = PyStr ''http://[x/prs/1'' then Inl ''ValueError'' else Inr (example_url_path v))"

lemmas eval_defs =
  send_def build_status_def getProperty_def resolve_sha_def status_payload_def post_status_def
  with_sourcestamps_def reconfigService_def or_default_def example_render_def answering_def
  example_build_def STATUS_API_URL_def COMMENT_API_URL_def HTTP_PROCESSED_def HTTP_CREATED_def
  INPROGRESS_def SUCCESSFUL_def FAILED_def SUCCESS_def sendMessage_def set_add_def
  isMessageNeeded_def posts_def raised_def

lemmas eval_x_defs =
  send_x_def send_sourcestamp_x_def status_payload_x_def post_comment_x_def sendMessage_x_def
  returning_def answering_x_def rendering_def failing_from_def example_urlparse_def example_url_path_def
  pr_build_def example_stamps_def Let_def

section \<open>Properties\<close>

subsection \<open>The loop of send\<close>

lemma send_sourcestamps_append:
  "send_sourcestamps self render post b status description gr (xs @ ys) h =
     (case send_sourcestamps self render post b status description gr xs h of
        (evs1, h1, Some e) \<Rightarrow> (evs1, h1, Some e)
      | (evs1, h1, None) \<Rightarrow>
          (case send_sourcestamps self render post b status description gr ys h1 of
             (evs2, h2, r) \<Rightarrow> (evs1 @ evs2, h2, r)))"
proof (induction xs arbitrary: h)
  case Nil
  show ?case by (simp split: prod.splits)
next
  case (Cons x xs)
  show ?case
    by (simp add: Cons.IH split: sum.splits option.splits prod.splits)
qed

lemma posts_post_status:
  "filter is_post (fst (post_status self post status sha payload h)) = [POST (STATUS_API_URL sha) payload]"
  by (simp add: post_status_def split: prod.splits)

lemma posts_send_sourcestamps:
  "filter is_post (fst (send_sourcestamps self render post b status description gr sss h)) =
     map (\<lambda>sha. POST (STATUS_API_URL sha) (status_payload self render b status description))
       (List.map_filter (\<lambda>ss. case resolve_sha gr ss of Inr (Some sha) \<Rightarrow> Some sha | _ \<Rightarrow> None)
          (takeWhile (\<lambda>ss. isl (resolve_sha gr ss) = False) sss))"
proof (induction sss arbitrary: h)
  case Nil
  show ?case by simp
next
  case (Cons ss sss)
  show ?case
  proof (cases "resolve_sha gr ss")
    case (Inl e)
    then show ?thesis by simp
  next
    case (Inr v)
    show ?thesis
    proof (cases v)
      case None
      obtain evs h' r where rest:
        "send_sourcestamps self render post b status description gr sss h = (evs, h', r)"
        by (cases "send_sourcestamps self render post b status description gr sss h")
      from Inr None rest show ?thesis
        using Cons.IH[of h] by simp
    next
      case (Some sha)
      obtain evs1 h1 where p:
        "post_status self post status sha (status_payload self render b status description) h = (evs1, h1)"
        by (cases "post_status self post status sha (status_payload self render b status description) h")
      obtain evs h' r where rest:
        "send_sourcestamps self render post b status description gr sss h1 = (evs, h', r)"
        by (cases "send_sourcestamps self render post b status description gr sss h1")
      have f: "filter is_post evs1 = [POST (STATUS_API_URL sha) (status_payload self render b status description)]"
        using posts_post_status[of self post status sha "status_payload self render b status description" h] p by simp
      from Inr Some p f rest show ?thesis
        using Cons.IH[of h1] by simp
    qed
  qed
qed


lemma build_status_with:
  "build_status self (with_sourcestamps b sss) = build_status self b"
  by (simp add: build_status_def with_sourcestamps_def)

lemma status_payload_with:
  "status_payload self render (with_sourcestamps b sss) = status_payload self render b"
  by (simp add: status_payload_def with_sourcestamps_def fun_eq_iff split: option.splits)

lemma send_sourcestamps_build:
  assumes "status_payload self render b' = status_payload self render b"
  shows "send_sourcestamps self render post b' status description gr sss h =
         send_sourcestamps self render post b status description gr sss h"
  using assms
  by (induction sss arbitrary: h) (simp_all split: sum.splits option.splits prod.splits)

lemma send_unfold:
  "send self render post b h =
     send_sourcestamps self render post b (fst (build_status self b)) (snd (build_status self b))
       (getProperty (properties b) ''got_revision'' PyNone) (sourcestamps (buildset b)) h"
  by (simp add: send_def split: prod.splits)

lemma send_with:
  "send self render post (with_sourcestamps b sss) h =
     send_sourcestamps self render post b (fst (build_status self b)) (snd (build_status self b))
       (getProperty (properties b) ''got_revision'' PyNone) sss h"
proof -
  have "properties (with_sourcestamps b sss) = properties b"
    and "sourcestamps (buildset (with_sourcestamps b sss)) = sss"
    by (simp_all add: with_sourcestamps_def)
  then show ?thesis
    by (simp add: send_unfold build_status_with
        send_sourcestamps_build[OF status_payload_with])
qed

lemma send_reach:
  assumes "sourcestamps (buildset b) = pre @ suf"
    and "send self render post (with_sourcestamps b pre) h = (evs0, h0, None)"
  shows "send self render post b h =
     (case send_sourcestamps self render post b (fst (build_status self b))
             (snd (build_status self b)) (getProperty (properties b) ''got_revision'' PyNone)
             suf h0 of
        (evs, h', r) \<Rightarrow> (evs0 @ evs, h', r))"
proof -
  have pre: "send_sourcestamps self render post b (fst (build_status self b))
      (snd (build_status self b)) (getProperty (properties b) ''got_revision'' PyNone) pre h =
      (evs0, h0, None)"
    using assms(2) by (simp only: send_with)
  show ?thesis
    by (simp add: send_unfold assms(1) send_sourcestamps_append pre)
qed

lemma resolve_sha_None:
  "resolve_sha got_revision ss = Inr None \<longleftrightarrow>
     revision ss = None \<and>
     (got_revision = PyNone \<or> (\<exists>d. got_revision = PyDict d \<and> map_of d (codebase ss) = Some None))"
  by (auto simp: resolve_sha_def split: option.splits pyvalue.splits)

lemma send_reach_post:
  assumes "sourcestamps (buildset b) = pre @ ss # rest"
    and "resolve_sha (getProperty (properties b) ''got_revision'' PyNone) ss = Inr (Some sha)"
    and "send self render post (with_sourcestamps b pre) h = (evs0, h0, None)"
  shows "\<exists>evs. fst (send self render post b h) =
           evs0 @ POST (STATUS_API_URL sha)
             (status_payload self render b (fst (build_status self b)) (snd (build_status self b))) # evs"
  by (simp add: send_reach[OF assms(1) assms(3)] assms(2) post_status_def split: prod.splits)

lemma post_in_send:
  assumes "POST path payload \<in> set (fst (send self render post b h))"
  shows "payload = status_payload self render b (fst (build_status self b)) (snd (build_status self b))"
proof -
  from assms have "POST path payload \<in> set (filter is_post (fst (send self render post b h)))"
    by simp
  then show ?thesis
    unfolding send_unfold posts_send_sourcestamps by auto
qed





subsection \<open>The loops of sendMessage\<close>

lemma collect_pr_urls_set:
  "collect_pr_urls builds acc = Inr urls \<Longrightarrow>
     set urls = set acc \<union> (\<lambda>b. getProperty (properties b) ''pullrequesturl'' PyNone) ` set builds"
  by (induction builds arbitrary: acc) (auto simp: set_add_def split: if_splits)



lemma post_comments_posts:
  "filter is_post (fst (post_comments v post url_path body urls h)) =
     map (\<lambda>u. POST (COMMENT_API_URL (url_path u)) [(''text'', body)]) urls"
proof (induction urls arbitrary: h)
  case Nil
  show ?case by simp
next
  case (Cons u urls)
  obtain response h1 where p:
    "post h (COMMENT_API_URL (url_path u)) [(''text'', body)] = (response, h1)"
    by (cases "post h (COMMENT_API_URL (url_path u)) [(''text'', body)]")
  obtain evs h' where r: "post_comments v post url_path body urls h1 = (evs, h')"
    by (cases "post_comments v post url_path body urls h1")
  show ?case
    using Cons.IH[of h1] by (simp add: Let_def p r)
qed


lemma sendMessage_posts:
  assumes "collect_pr_urls builds [] = Inr urls"
  shows "posts (sendMessage v post url_path body builds h) =
           map (\<lambda>u. POST (COMMENT_API_URL (url_path u)) [(''text'', body)]) urls"
    and "raised (sendMessage v post url_path body builds h) = None"
  using post_comments_posts[of v post url_path body urls h]
  by (simp_all add: sendMessage_def posts_def raised_def assms case_prod_unfold Let_def)

lemma isMessageNeeded_dom:
  "isMessageNeeded base b \<Longrightarrow> ''pullrequesturl'' \<in> dom (properties b)"
  by (simp add: isMessageNeeded_def split: if_splits)


subsection \<open>The loops with collaborators that raise\<close>

lemma status_payload_x_returning:
  "status_payload_x self (\<lambda>props t. Inr (render props t)) b status description =
     Inr (status_payload self render b status description)"
  by (simp add: status_payload_x_def status_payload_def split: option.splits)

lemma send_sourcestamps_x_returning:
  "send_sourcestamps_x self (\<lambda>props t. Inr (render props t)) (returning post) b status description
       got_revision sss h =
     (case send_sourcestamps self render post b status description got_revision sss h of
        (evs, h', r) \<Rightarrow> (evs, h', map_option InFile r))"
proof (induction sss arbitrary: h)
  case Nil
  show ?case by simp
next
  case (Cons ss sss)
  show ?case
  proof (cases "resolve_sha got_revision ss")
    case (Inl e)
    then show ?thesis by (simp add: send_sourcestamp_x_def)
  next
    case (Inr v)
    show ?thesis
    proof (cases v)
      case None
      with Inr show ?thesis
        by (simp add: send_sourcestamp_x_def Cons.IH case_prod_unfold Let_def)
    next
      case (Some sha)
      obtain resp h1 where p:
        "post h (STATUS_API_URL sha) (status_payload self render b status description) = (resp, h1)"
        by (cases "post h (STATUS_API_URL sha) (status_payload self render b status description)")
      have rp: "returning post h (STATUS_API_URL sha)
          (status_payload self render b status description) =
          (Inr \<lparr>code_x = code resp, content_x = Inr (content resp)\<rparr>, h1)"
        by (simp add: returning_def p)
      from Inr Some show ?thesis
        by (simp add: send_sourcestamp_x_def status_payload_x_returning rp p
            post_status_def Cons.IH case_prod_unfold Let_def)
    qed
  qed
qed

lemma send_x_returning:
  "send_x self (\<lambda>props t. Inr (render props t)) (returning post) b h =
     (case send self render post b h of (evs, h', r) \<Rightarrow> (evs, h', map_option InFile r))"
  by (simp add: send_x_def send_def send_sourcestamps_x_returning case_prod_unfold Let_def)

lemma post_comments_x_returning:
  "post_comments_x v (returning post) (\<lambda>u. Inr (url_path u)) body urls h =
     (case post_comments v post url_path body urls h of (evs, h') \<Rightarrow> (evs, h', None))"
  by (induction urls arbitrary: h)
    (simp_all add: post_comment_x_def returning_def case_prod_unfold Let_def)

lemma sendMessage_x_returning:
  "sendMessage_x v (returning post) (\<lambda>u. Inr (url_path u)) body builds h =
     (case sendMessage v post url_path body builds h of
        (evs, h', r) \<Rightarrow> (evs, h', map_option InFile r))"
  by (simp add: sendMessage_x_def sendMessage_def post_comments_x_returning case_prod_unfold
      Let_def split: sum.splits)


lemma send_sourcestamps_x_append:
  "send_sourcestamps_x self render post b status description gr (xs @ ys) h =
     (case send_sourcestamps_x self render post b status description gr xs h of
        (evs1, h1, Some e) \<Rightarrow> (evs1, h1, Some e)
      | (evs1, h1, None) \<Rightarrow>
          (case send_sourcestamps_x self render post b status description gr ys h1 of
             (evs2, h2, r) \<Rightarrow> (evs1 @ evs2, h2, r)))"
proof (induction xs arbitrary: h)
  case Nil
  show ?case by (simp split: prod.splits)
next
  case (Cons x xs)
  show ?case
    by (simp add: Cons.IH split: option.splits prod.splits)
qed

lemma status_payload_x_with:
  "status_payload_x self render (with_sourcestamps b sss) = status_payload_x self render b"
proof -
  have p: "properties (with_sourcestamps b sss) = properties b"
    and u: "url (with_sourcestamps b sss) = url b"
    by (simp_all add: with_sourcestamps_def)
  show ?thesis
    unfolding status_payload_x_def p u by (rule refl)
qed

lemma send_sourcestamp_x_with:
  "send_sourcestamp_x self render post (with_sourcestamps b sss) =
   send_sourcestamp_x self render post b"
  unfolding send_sourcestamp_x_def status_payload_x_with by (rule refl)

lemma send_sourcestamps_x_with:
  "send_sourcestamps_x self render post (with_sourcestamps b sss) status description gr xs h =
   send_sourcestamps_x self render post b status description gr xs h"
  by (induction xs arbitrary: h) (simp_all add: send_sourcestamp_x_with)

lemma send_x_unfold:
  "send_x self render post b h =
     send_sourcestamps_x self render post b (fst (build_status self b))
      (snd (build_status self b)) (getProperty (properties b) ''got_revision'' PyNone) (sourcestamps (buildset b)) h"
  by (simp add: send_x_def split: prod.splits)

lemma send_x_with:
  "send_x self render post (with_sourcestamps b sss) h =
     send_sourcestamps_x self render post b (fst (build_status self b))
      (snd (build_status self b)) (getProperty (properties b) ''got_revision'' PyNone) sss h"
proof -
  have "properties (with_sourcestamps b sss) = properties b"
    and "sourcestamps (buildset (with_sourcestamps b sss)) = sss"
    by (simp_all add: with_sourcestamps_def)
  then show ?thesis
    by (simp add: send_x_unfold build_status_with send_sourcestamps_x_with)
qed

lemma send_x_reach:
  assumes "sourcestamps (buildset b) = pre @ ss # rest"
    and "send_x self render post (with_sourcestamps b pre) h = (evs_pre, h_pre, None)"
  shows "send_x self render post b h =
     (case send_sourcestamp_x self render post b (fst (build_status self b)) (snd (build_status self b))
             (getProperty (properties b) ''got_revision'' PyNone) ss h_pre of
        (evs1, h1, Some e) \<Rightarrow> (evs_pre @ evs1, h1, Some e)
      | (evs1, h1, None) \<Rightarrow>
          (case send_x self render post (with_sourcestamps b rest) h1 of
             (evs, h', r) \<Rightarrow> (evs_pre @ evs1 @ evs, h', r)))"
proof -
  have pre: "send_sourcestamps_x self render post b (fst (build_status self b))
      (snd (build_status self b)) (getProperty (properties b) ''got_revision'' PyNone) pre h =
      (evs_pre, h_pre, None)"
    using assms(2) by (simp only: send_x_with)
  show ?thesis
    unfolding send_x_with
    by (simp add: send_x_unfold assms(1) send_sourcestamps_x_append pre
        split: prod.splits option.splits)
qed

lemma post_comments_x_append:
  "post_comments_x v post url_path body (xs @ ys) h =
     (case post_comments_x v post url_path body xs h of
        (evs1, h1, Some e) \<Rightarrow> (evs1, h1, Some e)
      | (evs1, h1, None) \<Rightarrow>
          (case post_comments_x v post url_path body ys h1 of
             (evs2, h2, r) \<Rightarrow> (evs1 @ evs2, h2, r)))"
proof (induction xs arbitrary: h)
  case Nil
  show ?case by (simp split: prod.splits)
next
  case (Cons x xs)
  show ?case
    by (simp add: Cons.IH split: option.splits prod.splits)
qed

lemma sendMessage_x_reach:
  assumes "collect_pr_urls builds [] = Inr (upre @ u # urest)"
    and "post_comments_x v post url_path body upre c = (cevs_pre, c_pre, None)"
  shows "sendMessage_x v post url_path body builds c =
     (case post_comment_x v post url_path body u c_pre of
        (evs1, c1, Some e) \<Rightarrow> (cevs_pre @ evs1, c1, Some e)
      | (evs1, c1, None) \<Rightarrow>
          (case post_comments_x v post url_path body urest c1 of
             (evs, c', r) \<Rightarrow> (cevs_pre @ evs1 @ evs, c', r)))"
  by (simp add: sendMessage_x_def assms post_comments_x_append
      split: prod.splits option.splits)

subsection \<open>The state of a status\<close>

text \<open>
  Claim C1. Every status that \<^verbatim>\<open>send\<close> posts for a build carries the state
  \<^verbatim>\<open>SUCCESSFUL\<close> when the build is complete and its results are
  \<^verbatim>\<open>SUCCESS\<close>, \<^verbatim>\<open>FAILED\<close> when it is complete with any other results, and
  \<^verbatim>\<open>INPROGRESS\<close> when it is not complete.
\<close>

theorem send_state:
  assumes "POST path payload \<in> set (fst (send self render post b h))"
  shows "map_of payload ''state'' =
           Some (if complete b
                 then (if results b = Some SUCCESS then ''SUCCESSFUL'' else ''FAILED'')
                 else ''INPROGRESS'')"
  using post_in_send[OF assms]
  by (simp add: status_payload_def build_status_def SUCCESSFUL_def FAILED_def INPROGRESS_def)


theorem send_state_witness:
  "POST ''/rest/build-status/1.0/commits/abc123''
      [(''state'', ''SUCCESSFUL''), (''url'', ''http://ci/builds/7''), (''key'', ''runtests''),
       (''description'', ''Build done.'')]
     \<in> set (fst (send (reconfigService None None None None False) example_render (answering 204 [])
            (example_build True (Some SUCCESS) [''buildername'' \<mapsto> PyStr ''runtests'']
               [\<lparr>codebase = [], revision = Some ''abc123''\<rparr>]) 0))
   \<and> map_of [(''state'', ''SUCCESSFUL''), (''url'', ''http://ci/builds/7''), (''key'', ''runtests''),
       (''description'', ''Build done.'')] ''state'' = Some ''SUCCESSFUL''
   \<and> POST ''/rest/build-status/1.0/commits/abc123''
      [(''state'', ''FAILED''), (''url'', ''http://ci/builds/7''), (''key'', ''runtests''),
       (''description'', ''Build done.'')]
     \<in> set (fst (send (reconfigService None None None None False) example_render (answering 204 [])
            (example_build True (Some 2) [''buildername'' \<mapsto> PyStr ''runtests'']
               [\<lparr>codebase = [], revision = Some ''abc123''\<rparr>]) 0))
   \<and> map_of [(''state'', ''FAILED''), (''url'', ''http://ci/builds/7''), (''key'', ''runtests''),
       (''description'', ''Build done.'')] ''state'' = Some ''FAILED''
   \<and> POST ''/rest/build-status/1.0/commits/abc123''
      [(''state'', ''INPROGRESS''), (''url'', ''http://ci/builds/7''), (''key'', ''runtests''),
       (''description'', ''Build started.'')]
     \<in> set (fst (send (reconfigService None None None None False) example_render (answering 204 [])
            (example_build False None [''buildername'' \<mapsto> PyStr ''runtests'']
               [\<lparr>codebase = [], revision = Some ''abc123''\<rparr>]) 0))
   \<and> map_of [(''state'', ''INPROGRESS''), (''url'', ''http://ci/builds/7''), (''key'', ''runtests''),
       (''description'', ''Build started.'')] ''state'' = Some ''INPROGRESS''"
proof -
  have h1: "POST ''/rest/build-status/1.0/commits/abc123''
      [(''state'', ''SUCCESSFUL''), (''url'', ''http://ci/builds/7''), (''key'', ''runtests''),
       (''description'', ''Build done.'')]
     \<in> set (fst (send (reconfigService None None None None False) example_render (answering 204 [])
            (example_build True (Some SUCCESS) [''buildername'' \<mapsto> PyStr ''runtests'']
               [\<lparr>codebase = [], revision = Some ''abc123''\<rparr>]) 0))"
    by (simp add: eval_defs)
  have h2: "POST ''/rest/build-status/1.0/commits/abc123''
      [(''state'', ''FAILED''), (''url'', ''http://ci/builds/7''), (''key'', ''runtests''),
       (''description'', ''Build done.'')]
     \<in> set (fst (send (reconfigService None None None None False) example_render (answering 204 [])
            (example_build True (Some 2) [''buildername'' \<mapsto> PyStr ''runtests'']
               [\<lparr>codebase = [], revision = Some ''abc123''\<rparr>]) 0))"
    by (simp add: eval_defs)
  have h3: "POST ''/rest/build-status/1.0/commits/abc123''
      [(''state'', ''INPROGRESS''), (''url'', ''http://ci/builds/7''), (''key'', ''runtests''),
       (''description'', ''Build started.'')]
     \<in> set (fst (send (reconfigService None None None None False) example_render (answering 204 [])
            (example_build False None [''buildername'' \<mapsto> PyStr ''runtests'']
               [\<lparr>codebase = [], revision = Some ''abc123''\<rparr>]) 0))"
    by (simp add: eval_defs)
  show ?thesis
    using send_state[OF h1] send_state[OF h2] send_state[OF h3] h1 h2 h3
    by (simp add: example_build_def SUCCESS_def)
qed

subsection \<open>The commit hash of a source stamp\<close>

text \<open>
  In the theorems of this subsection the build's source stamps are \<open>pre @ ss # rest\<close>,
  and \<^verbatim>\<open>send\<close> reaches \<open>ss\<close>: on the source stamps \<open>pre\<close> it returns normally,
  with the events \<open>evs0\<close> and the client in state \<open>h0\<close>.
\<close>

text \<open>
  Claim C2. A source stamp whose revision is not None is posted to the endpoint of that
  very revision, and its commit hash is that revision whatever \<^verbatim>\<open>got_revision\<close>
  is: the property is not consulted.
\<close>

theorem revision_used_verbatim:
  assumes "sourcestamps (buildset b) = pre @ ss # rest"
    and "revision ss = Some r"
    and "send self render post (with_sourcestamps b pre) h = (evs0, h0, None)"
  shows "resolve_sha got_revision ss = Inr (Some r) \<and>
         (\<exists>evs. fst (send self render post b h) =
            evs0 @ POST (''/rest/build-status/1.0/commits/'' @ r)
              (status_payload self render b (fst (build_status self b)) (snd (build_status self b))) # evs)"
proof -
  have r: "resolve_sha g ss = Inr (Some r)" for g
    using assms(2) by (simp add: resolve_sha_def)
  from send_reach_post[OF assms(1) r assms(3)] r show ?thesis
    by (simp add: STATUS_API_URL_def)
qed

theorem revision_used_verbatim_witness:
  "sourcestamps (buildset (example_build False None [''buildername'' \<mapsto> PyStr ''runtests''] example_stamps)) =
      [\<lparr>codebase = ''app'', revision = Some ''abc123''\<rparr>, \<lparr>codebase = ''lib'', revision = None\<rparr>] @ \<lparr>codebase = ''doc'', revision = Some ''d0c''\<rparr> # []
   \<and> revision \<lparr>codebase = ''doc'', revision = Some ''d0c''\<rparr> = Some ''d0c''
   \<and> send (reconfigService None None None None False) example_render (answering 204 [])
      (with_sourcestamps (example_build False None [''buildername'' \<mapsto> PyStr ''runtests''] example_stamps) [\<lparr>codebase = ''app'', revision = Some ''abc123''\<rparr>, \<lparr>codebase = ''lib'', revision = None\<rparr>]) 0 =
      ([POST ''/rest/build-status/1.0/commits/abc123''
       [(''state'', ''INPROGRESS''), (''url'', ''http://ci/builds/7''), (''key'', ''runtests''),
        (''description'', ''Build started.'')],
        LogError ''Unable to get the commit hash'' []], 1, None)
   \<and> resolve_sha (PyDict []) \<lparr>codebase = ''doc'', revision = Some ''d0c''\<rparr> = Inr (Some ''d0c'')
   \<and> (\<exists>evs. fst (send (reconfigService None None None None False) example_render (answering 204 [])
      (example_build False None [''buildername'' \<mapsto> PyStr ''runtests''] example_stamps) 0) =
      [POST ''/rest/build-status/1.0/commits/abc123''
       [(''state'', ''INPROGRESS''), (''url'', ''http://ci/builds/7''), (''key'', ''runtests''),
        (''description'', ''Build started.'')],
        LogError ''Unable to get the commit hash'' [],
        POST ''/rest/build-status/1.0/commits/d0c''
       [(''state'', ''INPROGRESS''), (''url'', ''http://ci/builds/7''), (''key'', ''runtests''),
        (''description'', ''Build started.'')]] @ evs)"
proof -
  have h1: "sourcestamps (buildset (example_build False None [''buildername'' \<mapsto> PyStr ''runtests''] example_stamps)) =
      [\<lparr>codebase = ''app'', revision = Some ''abc123''\<rparr>, \<lparr>codebase = ''lib'', revision = None\<rparr>] @ \<lparr>codebase = ''doc'', revision = Some ''d0c''\<rparr> # []"
    by (simp add: eval_defs example_stamps_def)
  have h2: "revision \<lparr>codebase = ''doc'', revision = Some ''d0c''\<rparr> = Some ''d0c''"
    by (simp add: eval_defs example_stamps_def)
  have h3: "send (reconfigService None None None None False) example_render (answering 204 [])
      (with_sourcestamps (example_build False None [''buildername'' \<mapsto> PyStr ''runtests''] example_stamps) [\<lparr>codebase = ''app'', revision = Some ''abc123''\<rparr>, \<lparr>codebase = ''lib'', revision = None\<rparr>]) 0 =
      ([POST ''/rest/build-status/1.0/commits/abc123''
       [(''state'', ''INPROGRESS''), (''url'', ''http://ci/builds/7''), (''key'', ''runtests''),
        (''description'', ''Build started.'')],
        LogError ''Unable to get the commit hash'' []], 1, None)"
    by (simp add: eval_defs example_stamps_def)
  show ?thesis
    using revision_used_verbatim[OF h1 h2 h3, where got_revision = "PyDict []"] h1 h2 h3
    by (simp add: example_stamps_def example_build_def STATUS_API_URL_def status_payload_def
        build_status_def reconfigService_def or_default_def example_render_def INPROGRESS_def)
qed

text \<open>
  Claim C3. For a source stamp without a revision, when \<^verbatim>\<open>got_revision\<close> is a
  dictionary that has the source stamp's codebase, the commit hash is the dictionary's
  value at that codebase, and a value that is not None is the commit the status is
  posted to.
\<close>

theorem got_revision_mapping_lookup:
  assumes "sourcestamps (buildset b) = pre @ ss # rest"
    and "revision ss = None"
    and "getProperty (properties b) ''got_revision'' PyNone = PyDict d"
    and "map_of d (codebase ss) = Some v"
    and "send self render post (with_sourcestamps b pre) h = (evs0, h0, None)"
  shows "resolve_sha (PyDict d) ss = Inr v \<and>
         (\<forall>sha. v = Some sha \<longrightarrow>
            (\<exists>evs. fst (send self render post b h) =
               evs0 @ POST (''/rest/build-status/1.0/commits/'' @ sha)
                 (status_payload self render b (fst (build_status self b)) (snd (build_status self b))) # evs))"
proof -
  have r: "resolve_sha (PyDict d) ss = Inr v"
    using assms(2,4) by (simp add: resolve_sha_def)
  have "\<exists>evs. fst (send self render post b h) =
               evs0 @ POST (''/rest/build-status/1.0/commits/'' @ sha)
                 (status_payload self render b (fst (build_status self b)) (snd (build_status self b))) # evs"
    if "v = Some sha" for sha
    using send_reach_post[OF assms(1) _ assms(5), of sha] r that
    by (simp add: assms(3) STATUS_API_URL_def)
  with r show ?thesis by blast
qed


theorem got_revision_mapping_lookup_witness:
  "sourcestamps (buildset (example_build False None [''buildername'' \<mapsto> PyStr ''runtests'', ''got_revision'' \<mapsto> PyDict [(''lib'', Some ''f00'')]] example_stamps)) =
      [\<lparr>codebase = ''app'', revision = Some ''abc123''\<rparr>] @ \<lparr>codebase = ''lib'', revision = None\<rparr> # [\<lparr>codebase = ''doc'', revision = Some ''d0c''\<rparr>]
   \<and> revision \<lparr>codebase = ''lib'', revision = None\<rparr> = None
   \<and> getProperty (properties (example_build False None [''buildername'' \<mapsto> PyStr ''runtests'', ''got_revision'' \<mapsto> PyDict [(''lib'', Some ''f00'')]] example_stamps)) ''got_revision'' PyNone =
      PyDict [(''lib'', Some ''f00'')]
   \<and> map_of [(''lib'', Some ''f00'')] (codebase \<lparr>codebase = ''lib'', revision = None\<rparr>) = Some (Some ''f00'')
   \<and> send (reconfigService None None None None False) example_render (answering 204 [])
      (with_sourcestamps (example_build False None [''buildername'' \<mapsto> PyStr ''runtests'', ''got_revision'' \<mapsto> PyDict [(''lib'', Some ''f00'')]] example_stamps) [\<lparr>codebase = ''app'', revision = Some ''abc123''\<rparr>]) 0 =
      ([POST ''/rest/build-status/1.0/commits/abc123''
       [(''state'', ''INPROGRESS''), (''url'', ''http://ci/builds/7''), (''key'', ''runtests''),
        (''description'', ''Build started.'')]], 1, None)
   \<and> resolve_sha (PyDict [(''lib'', Some ''f00'')]) \<lparr>codebase = ''lib'', revision = None\<rparr> = Inr (Some ''f00'')
   \<and> (\<exists>evs. fst (send (reconfigService None None None None False) example_render (answering 204 [])
      (example_build False None [''buildername'' \<mapsto> PyStr ''runtests'', ''got_revision'' \<mapsto> PyDict [(''lib'', Some ''f00'')]] example_stamps) 0) =
      [POST ''/rest/build-status/1.0/commits/abc123''
       [(''state'', ''INPROGRESS''), (''url'', ''http://ci/builds/7''), (''key'', ''runtests''),
        (''description'', ''Build started.'')],
        POST ''/rest/build-status/1.0/commits/f00''
       [(''state'', ''INPROGRESS''), (''url'', ''http://ci/builds/7''), (''key'', ''runtests''),
        (''description'', ''Build started.'')]] @ evs)"
proof -
  have h1: "sourcestamps (buildset (example_build False None [''buildername'' \<mapsto> PyStr ''runtests'', ''got_revision'' \<mapsto> PyDict [(''lib'', Some ''f00'')]] example_stamps)) =
      [\<lparr>codebase = ''app'', revision = Some ''abc123''\<rparr>] @ \<lparr>codebase = ''lib'', revision = None\<rparr> # [\<lparr>codebase = ''doc'', revision = Some ''d0c''\<rparr>]"
    by (simp add: eval_defs example_stamps_def)
  have h2: "revision \<lparr>codebase = ''lib'', revision = None\<rparr> = None"
    by (simp add: eval_defs example_stamps_def)
  have h3: "getProperty (properties (example_build False None [''buildername'' \<mapsto> PyStr ''runtests'', ''got_revision'' \<mapsto> PyDict [(''lib'', Some ''f00'')]] example_stamps)) ''got_revision'' PyNone =
      PyDict [(''lib'', Some ''f00'')]"
    by (simp add: eval_defs example_stamps_def)
  have h4: "map_of [(''lib'', Some ''f00'')] (codebase \<lparr>codebase = ''lib'', revision = None\<rparr>) = Some (Some ''f00'')"
    by (simp add: eval_defs example_stamps_def)
  have h5: "send (reconfigService None None None None False) example_render (answering 204 [])
      (with_sourcestamps (example_build False None [''buildername'' \<mapsto> PyStr ''runtests'', ''got_revision'' \<mapsto> PyDict [(''lib'', Some ''f00'')]] example_stamps) [\<lparr>codebase = ''app'', revision = Some ''abc123''\<rparr>]) 0 =
      ([POST ''/rest/build-status/1.0/commits/abc123''
       [(''state'', ''INPROGRESS''), (''url'', ''http://ci/builds/7''), (''key'', ''runtests''),
        (''description'', ''Build started.'')]], 1, None)"
    by (simp add: eval_defs example_stamps_def)
  show ?thesis
    using got_revision_mapping_lookup[OF h1 h2 h3 h4 h5] h1 h2 h3 h4 h5
    by (simp add: example_stamps_def example_build_def STATUS_API_URL_def status_payload_def
        build_status_def reconfigService_def or_default_def example_render_def INPROGRESS_def)
qed

text \<open>
  Claim C4. A source stamp for which neither the revision nor \<^verbatim>\<open>got_revision\<close>
  gives a commit hash is logged as an error and gets no POST; \<^verbatim>\<open>send\<close> goes on
  with the remaining source stamps, from the same state of the client, and ends as they
  make it end.
\<close>

theorem unresolved_sourcestamp_skipped:
  assumes "sourcestamps (buildset b) = pre @ ss # rest"
    and "revision ss = None"
    and "resolve_sha (getProperty (properties b) ''got_revision'' PyNone) ss = Inr None"
    and "send self render post (with_sourcestamps b pre) h = (evs0, h0, None)"
    and "send self render post (with_sourcestamps b rest) h0 = (evs, h', r)"
  shows "send self render post b h =
           (evs0 @ LogError ''Unable to get the commit hash'' [] # evs, h', r)"
proof -
  have rest: "send_sourcestamps self render post b (fst (build_status self b))
      (snd (build_status self b)) (getProperty (properties b) ''got_revision'' PyNone) rest h0 =
      (evs, h', r)"
    using assms(5) by (simp only: send_with)
  show ?thesis
    by (simp add: send_reach[OF assms(1) assms(4)] assms(3) rest)
qed

theorem unresolved_sourcestamp_skipped_witness:
  "sourcestamps (buildset (example_build False None [''buildername'' \<mapsto> PyStr ''runtests''] example_stamps)) =
      [\<lparr>codebase = ''app'', revision = Some ''abc123''\<rparr>] @ \<lparr>codebase = ''lib'', revision = None\<rparr> # [\<lparr>codebase = ''doc'', revision = Some ''d0c''\<rparr>]
   \<and> revision \<lparr>codebase = ''lib'', revision = None\<rparr> = None
   \<and> resolve_sha (getProperty (properties (example_build False None [''buildername'' \<mapsto> PyStr ''runtests''] example_stamps)) ''got_revision'' PyNone)
      \<lparr>codebase = ''lib'', revision = None\<rparr> = Inr None
   \<and> send (reconfigService None None None None False) example_render (answering 204 [])
      (with_sourcestamps (example_build False None [''buildername'' \<mapsto> PyStr ''runtests''] example_stamps) [\<lparr>codebase = ''app'', revision = Some ''abc123''\<rparr>]) 0 =
      ([POST ''/rest/build-status/1.0/commits/abc123''
       [(''state'', ''INPROGRESS''), (''url'', ''http://ci/builds/7''), (''key'', ''runtests''),
        (''description'', ''Build started.'')]], 1, None)
   \<and> send (reconfigService None None None None False) example_render (answering 204 [])
      (with_sourcestamps (example_build False None [''buildername'' \<mapsto> PyStr ''runtests''] example_stamps) [\<lparr>codebase = ''doc'', revision = Some ''d0c''\<rparr>]) 1 =
      ([POST ''/rest/build-status/1.0/commits/d0c''
       [(''state'', ''INPROGRESS''), (''url'', ''http://ci/builds/7''), (''key'', ''runtests''),
        (''description'', ''Build started.'')]], 2, None)
   \<and> send (reconfigService None None None None False) example_render (answering 204 [])
      (example_build False None [''buildername'' \<mapsto> PyStr ''runtests''] example_stamps) 0 =
      ([POST ''/rest/build-status/1.0/commits/abc123''
       [(''state'', ''INPROGRESS''), (''url'', ''http://ci/builds/7''), (''key'', ''runtests''),
        (''description'', ''Build started.'')],
        LogError ''Unable to get the commit hash'' [],
        POST ''/rest/build-status/1.0/commits/d0c''
       [(''state'', ''INPROGRESS''), (''url'', ''http://ci/builds/7''), (''key'', ''runtests''),
        (''description'', ''Build started.'')]], 2, None)"
proof -
  have h1: "sourcestamps (buildset (example_build False None [''buildername'' \<mapsto> PyStr ''runtests''] example_stamps)) =
      [\<lparr>codebase = ''app'', revision = Some ''abc123''\<rparr>] @ \<lparr>codebase = ''lib'', revision = None\<rparr> # [\<lparr>codebase = ''doc'', revision = Some ''d0c''\<rparr>]"
    by (simp add: eval_defs example_stamps_def)
  have h2: "revision \<lparr>codebase = ''lib'', revision = None\<rparr> = None"
    by (simp add: eval_defs example_stamps_def)
  have h3: "resolve_sha (getProperty (properties (example_build False None [''buildername'' \<mapsto> PyStr ''runtests''] example_stamps)) ''got_revision'' PyNone)
      \<lparr>codebase = ''lib'', revision = None\<rparr> = Inr None"
    by (simp add: eval_defs example_stamps_def)
  have h4: "send (reconfigService None None None None False) example_render (answering 204 [])
      (with_sourcestamps (example_build False None [''buildername'' \<mapsto> PyStr ''runtests''] example_stamps) [\<lparr>codebase = ''app'', revision = Some ''abc123''\<rparr>]) 0 =
      ([POST ''/rest/build-status/1.0/commits/abc123''
       [(''state'', ''INPROGRESS''), (''url'', ''http://ci/builds/7''), (''key'', ''runtests''),
        (''description'', ''Build started.'')]], 1, None)"
    by (simp add: eval_defs example_stamps_def)
  have h5: "send (reconfigService None None None None False) example_render (answering 204 [])
      (with_sourcestamps (example_build False None [''buildername'' \<mapsto> PyStr ''runtests''] example_stamps) [\<lparr>codebase = ''doc'', revision = Some ''d0c''\<rparr>]) 1 =
      ([POST ''/rest/build-status/1.0/commits/d0c''
       [(''state'', ''INPROGRESS''), (''url'', ''http://ci/builds/7''), (''key'', ''runtests''),
        (''description'', ''Build started.'')]], 2, None)"
    by (simp add: eval_defs example_stamps_def)
  show ?thesis
    using unresolved_sourcestamp_skipped[OF h1 h2 h3 h4 h5] h1 h2 h3 h4 h5
    by (simp add: example_stamps_def example_build_def STATUS_API_URL_def)
qed

text \<open>
  Claim C10. For a source stamp without a revision, when \<^verbatim>\<open>got_revision\<close> is a
  dictionary that lacks the source stamp's codebase, \<^verbatim>\<open>send\<close> raises
  \<^verbatim>\<open>KeyError\<close>: its events are those of the source stamps before, so neither this
  source stamp nor a later one is posted.
\<close>

theorem missing_codebase_raises:
  assumes "sourcestamps (buildset b) = pre @ ss # rest"
    and "revision ss = None"
    and "getProperty (properties b) ''got_revision'' PyNone = PyDict d"
    and "map_of d (codebase ss) = None"
    and "send self render post (with_sourcestamps b pre) h = (evs0, h0, None)"
  shows "send self render post b h = (evs0, h0, Some (KeyError (codebase ss)))"
proof -
  have "resolve_sha (PyDict d) ss = Inl (KeyError (codebase ss))"
    using assms(2,4) by (simp add: resolve_sha_def)
  then show ?thesis
    by (simp add: send_reach[OF assms(1) assms(5)] assms(3))
qed

theorem missing_codebase_raises_witness:
  "sourcestamps (buildset (example_build False None [''buildername'' \<mapsto> PyStr ''runtests'', ''got_revision'' \<mapsto> PyDict [(''app'', Some ''111'')]] example_stamps)) =
      [\<lparr>codebase = ''app'', revision = Some ''abc123''\<rparr>] @ \<lparr>codebase = ''lib'', revision = None\<rparr> # [\<lparr>codebase = ''doc'', revision = Some ''d0c''\<rparr>]
   \<and> revision \<lparr>codebase = ''lib'', revision = None\<rparr> = None
   \<and> getProperty (properties (example_build False None [''buildername'' \<mapsto> PyStr ''runtests'', ''got_revision'' \<mapsto> PyDict [(''app'', Some ''111'')]] example_stamps)) ''got_revision'' PyNone =
      PyDict [(''app'', Some ''111'')]
   \<and> map_of [(''app'', Some ''111'')] (codebase \<lparr>codebase = ''lib'', revision = None\<rparr>) = None
   \<and> send (reconfigService None None None None False) example_render (answering 204 [])
      (with_sourcestamps (example_build False None [''buildername'' \<mapsto> PyStr ''runtests'', ''got_revision'' \<mapsto> PyDict [(''app'', Some ''111'')]] example_stamps) [\<lparr>codebase = ''app'', revision = Some ''abc123''\<rparr>]) 0 =
      ([POST ''/rest/build-status/1.0/commits/abc123''
       [(''state'', ''INPROGRESS''), (''url'', ''http://ci/builds/7''), (''key'', ''runtests''),
        (''description'', ''Build started.'')]], 1, None)
   \<and> send (reconfigService None None None None False) example_render (answering 204 [])
      (example_build False None [''buildername'' \<mapsto> PyStr ''runtests'', ''got_revision'' \<mapsto> PyDict [(''app'', Some ''111'')]] example_stamps) 0 =
      ([POST ''/rest/build-status/1.0/commits/abc123''
       [(''state'', ''INPROGRESS''), (''url'', ''http://ci/builds/7''), (''key'', ''runtests''),
        (''description'', ''Build started.'')]], 1, Some (KeyError ''lib''))"
proof -
  have h1: "sourcestamps (buildset (example_build False None [''buildername'' \<mapsto> PyStr ''runtests'', ''got_revision'' \<mapsto> PyDict [(''app'', Some ''111'')]] example_stamps)) =
      [\<lparr>codebase = ''app'', revision = Some ''abc123''\<rparr>] @ \<lparr>codebase = ''lib'', revision = None\<rparr> # [\<lparr>codebase = ''doc'', revision = Some ''d0c''\<rparr>]"
    by (simp add: eval_defs example_stamps_def)
  have h2: "revision \<lparr>codebase = ''lib'', revision = None\<rparr> = None"
    by (simp add: eval_defs example_stamps_def)
  have h3: "getProperty (properties (example_build False None [''buildername'' \<mapsto> PyStr ''runtests'', ''got_revision'' \<mapsto> PyDict [(''app'', Some ''111'')]] example_stamps)) ''got_revision'' PyNone =
      PyDict [(''app'', Some ''111'')]"
    by (simp add: eval_defs example_stamps_def)
  have h4: "map_of [(''app'', Some ''111'')] (codebase \<lparr>codebase = ''lib'', revision = None\<rparr>) = None"
    by (simp add: eval_defs example_stamps_def)
  have h5: "send (reconfigService None None None None False) example_render (answering 204 [])
      (with_sourcestamps (example_build False None [''buildername'' \<mapsto> PyStr ''runtests'', ''got_revision'' \<mapsto> PyDict [(''app'', Some ''111'')]] example_stamps) [\<lparr>codebase = ''app'', revision = Some ''abc123''\<rparr>]) 0 =
      ([POST ''/rest/build-status/1.0/commits/abc123''
       [(''state'', ''INPROGRESS''), (''url'', ''http://ci/builds/7''), (''key'', ''runtests''),
        (''description'', ''Build started.'')]], 1, None)"
    by (simp add: eval_defs example_stamps_def)
  show ?thesis
    using missing_codebase_raises[OF h1 h2 h3 h4 h5] h1 h2 h3 h4 h5
    by (simp add: example_stamps_def example_build_def STATUS_API_URL_def)
qed

subsection \<open>Failures\<close>

text \<open>
  Claim C5, as the source has it. The claim is that no exception of one source stamp or
  one pull-request URL ends the work on the others. The source catches nothing: a
  \<^verbatim>\<open>KeyError\<close> of the \<^verbatim>\<open>got_revision\<close> lookup leaves \<^verbatim>\<open>send\<close>, and the
  source stamp after it, which alone would be posted, is not.
\<close>

theorem keyerror_aborts_siblings:
  "send (reconfigService None None None None False) example_render (answering 204 [])
      (example_build True (Some SUCCESS)
        [''buildername'' \<mapsto> PyStr ''runtests'', ''got_revision'' \<mapsto> PyDict [(''app'', Some ''111'')]]
        [\<lparr>codebase = ''lib'', revision = None\<rparr>, \<lparr>codebase = ''doc'', revision = Some ''d0c''\<rparr>]) 0 =
      ([], 0, Some (KeyError ''lib''))
   \<and> send (reconfigService None None None None False) example_render (answering 204 [])
      (with_sourcestamps (example_build True (Some SUCCESS)
        [''buildername'' \<mapsto> PyStr ''runtests'', ''got_revision'' \<mapsto> PyDict [(''app'', Some ''111'')]]
        [\<lparr>codebase = ''lib'', revision = None\<rparr>, \<lparr>codebase = ''doc'', revision = Some ''d0c''\<rparr>])
        [\<lparr>codebase = ''doc'', revision = Some ''d0c''\<rparr>]) 0 =
      ([POST ''/rest/build-status/1.0/commits/d0c''
       [(''state'', ''SUCCESSFUL''), (''url'', ''http://ci/builds/7''), (''key'', ''runtests''),
        (''description'', ''Build done.'')]], 1, None)"
  by (simp add: eval_defs example_stamps_def example_url_path_def pr_build_def Let_def)

text \<open>
  Claim C5, amended. No exception is caught. Let \<^verbatim>\<open>send\<close> reach the source
  stamp \<open>ss\<close> after the source stamps \<open>pre\<close>, and \<^verbatim>\<open>sendMessage\<close> the URL
  \<open>u\<close> after the URLs \<open>upre\<close>. When the \<^verbatim>\<open>got_revision\<close> lookup raises
  \<^verbatim>\<open>KeyError\<close>, or the renderer, the HTTP client, the reading of the response's
  body or the URL parser raises, the method ends with that exception and with the
  effects made so far: the source stamps and URLs after it are not processed. Only a
  commit hash that resolves to None, and a response with another code than the expected
  one whose body can be read, are logged in place, and the method goes on with the
  remaining source stamps and URLs.
\<close>

theorem exceptions_propagate:
  assumes "sourcestamps (buildset b) = pre @ ss # rest"
    and "send_x self render post (with_sourcestamps b pre) h = (evs_pre, h_pre, None)"
    and "collect_pr_urls builds [] = Inr (upre @ u # urest)"
    and "post_comments_x v cpost url_path body upre c = (cevs_pre, c_pre, None)"
  shows
   "(resolve_sha (getProperty (properties b) ''got_revision'' PyNone) ss = Inl ke \<longrightarrow>
       send_x self render post b h = (evs_pre, h_pre, Some (InFile ke)))
    \<and> (resolve_sha (getProperty (properties b) ''got_revision'' PyNone) ss = Inr (Some sha) \<and>
       status_payload_x self render b (fst (build_status self b)) (snd (build_status self b)) = Inl e \<longrightarrow>
       send_x self render post b h = (evs_pre, h_pre, Some (Collaborator e)))
    \<and> (resolve_sha (getProperty (properties b) ''got_revision'' PyNone) ss = Inr (Some sha) \<and>
       status_payload_x self render b (fst (build_status self b)) (snd (build_status self b)) = Inr payload \<and>
       post h_pre (STATUS_API_URL sha) payload = (Inl e, h_next) \<longrightarrow>
       send_x self render post b h =
         (evs_pre @ [POST (STATUS_API_URL sha) payload], h_next, Some (Collaborator e)))
    \<and> (resolve_sha (getProperty (properties b) ''got_revision'' PyNone) ss = Inr (Some sha) \<and>
       status_payload_x self render b (fst (build_status self b)) (snd (build_status self b)) = Inr payload \<and>
       post h_pre (STATUS_API_URL sha) payload = (Inr resp, h_next) \<and>
       code_x resp \<noteq> 204 \<and> content_x resp = Inl e \<longrightarrow>
       send_x self render post b h =
         (evs_pre @ [POST (STATUS_API_URL sha) payload], h_next, Some (Collaborator e)))
    \<and> (resolve_sha (getProperty (properties b) ''got_revision'' PyNone) ss = Inr None \<and>
       send_x self render post (with_sourcestamps b rest) h_pre = (evs, h', r) \<longrightarrow>
       send_x self render post b h =
         (evs_pre @ LogError ''Unable to get the commit hash'' [] # evs, h', r))
    \<and> (resolve_sha (getProperty (properties b) ''got_revision'' PyNone) ss = Inr (Some sha) \<and>
       status_payload_x self render b (fst (build_status self b)) (snd (build_status self b)) = Inr payload \<and>
       post h_pre (STATUS_API_URL sha) payload = (Inr resp, h_next) \<and>
       code_x resp \<noteq> 204 \<and> content_x resp = Inr t \<and>
       send_x self render post (with_sourcestamps b rest) h_next = (evs, h', r) \<longrightarrow>
       send_x self render post b h =
         (evs_pre @
          POST (STATUS_API_URL sha) payload #
          LogError ''{code}: Unable to send Bitbucket Server status: {content}''
            [(''code'', ArgInt (code_x resp)), (''content'', ArgStr t)] #
          evs, h', r))
    \<and> (url_path u = Inl ce \<longrightarrow>
       sendMessage_x v cpost url_path body builds c =
         (cevs_pre, c_pre, Some (Collaborator ce)))
    \<and> (url_path u = Inr path \<and>
       cpost c_pre (COMMENT_API_URL path) [(''text'', body)] = (Inl ce, c_next) \<longrightarrow>
       sendMessage_x v cpost url_path body builds c =
         (cevs_pre @ [POST (COMMENT_API_URL path) [(''text'', body)]], c_next,
          Some (Collaborator ce)))
    \<and> (url_path u = Inr path \<and>
       cpost c_pre (COMMENT_API_URL path) [(''text'', body)] = (Inr cresp, c_next) \<and>
       code_x cresp \<noteq> 201 \<and> content_x cresp = Inl ce \<longrightarrow>
       sendMessage_x v cpost url_path body builds c =
         (cevs_pre @ [POST (COMMENT_API_URL path) [(''text'', body)]], c_next,
          Some (Collaborator ce)))
    \<and> (url_path u = Inr path \<and>
       cpost c_pre (COMMENT_API_URL path) [(''text'', body)] = (Inr cresp, c_next) \<and>
       code_x cresp \<noteq> 201 \<and> content_x cresp = Inr ct \<and>
       post_comments_x v cpost url_path body urest c_next = (cevs, c', cr) \<longrightarrow>
       sendMessage_x v cpost url_path body builds c =
         (cevs_pre @
          POST (COMMENT_API_URL path) [(''text'', body)] #
          LogError ''{code}: Unable to send a comment: {content}''
            [(''code'', ArgInt (code_x cresp)), (''content'', ArgStr ct)] #
          cevs, c', cr))"
  by (simp_all add: send_x_reach[OF assms(1,2)] sendMessage_x_reach[OF assms(3,4)]
      send_sourcestamp_x_def post_comment_x_def HTTP_PROCESSED_def HTTP_CREATED_def)


theorem exceptions_propagate_witness:
  "sourcestamps (buildset (example_build False None
        [''buildername'' \<mapsto> PyStr ''runtests'', ''got_revision'' \<mapsto> PyDict [(''app'', Some ''111'')]]
        example_stamps)) =
      [\<lparr>codebase = ''app'', revision = Some ''abc123''\<rparr>] @ \<lparr>codebase = ''lib'', revision = None\<rparr> # [\<lparr>codebase = ''doc'', revision = Some ''d0c''\<rparr>]
   \<and> send_x (reconfigService None None None None False) rendering (answering_x 204 [])
      (with_sourcestamps (example_build False None
        [''buildername'' \<mapsto> PyStr ''runtests'', ''got_revision'' \<mapsto> PyDict [(''app'', Some ''111'')]]
        example_stamps)
        [\<lparr>codebase = ''app'', revision = Some ''abc123''\<rparr>]) 0 =
      ([POST ''/rest/build-status/1.0/commits/abc123''
       [(''state'', ''INPROGRESS''), (''url'', ''http://ci/builds/7''), (''key'', ''runtests''),
        (''description'', ''Build started.'')]], 1, None)
   \<and> collect_pr_urls
      [pr_build ''https://host/prs/42'',
       pr_build ''http://[x/prs/1'',
       pr_build ''https://host/prs/7''] [] =
      Inr ([PyStr ''https://host/prs/42''] @ PyStr ''http://[x/prs/1'' # [PyStr ''https://host/prs/7''])
   \<and> post_comments_x False (answering_x 201 []) example_urlparse ''Build done.''
      [PyStr ''https://host/prs/42''] 0 =
      ([POST ''/rest/api/1.0/prs/42/comments'' [(''text'', ''Build done.'')]], 1, None)
   \<and> resolve_sha (getProperty (properties (example_build False None
        [''buildername'' \<mapsto> PyStr ''runtests'', ''got_revision'' \<mapsto> PyDict [(''app'', Some ''111'')]]
        example_stamps)) ''got_revision'' PyNone)
      \<lparr>codebase = ''lib'', revision = None\<rparr> = Inl (KeyError ''lib'')
   \<and> example_urlparse (PyStr ''http://[x/prs/1'') = Inl ''ValueError''
   \<and> send_x (reconfigService None None None None False) rendering (answering_x 204 [])
      (example_build False None
        [''buildername'' \<mapsto> PyStr ''runtests'', ''got_revision'' \<mapsto> PyDict [(''app'', Some ''111'')]]
        example_stamps) 0 =
      ([POST ''/rest/build-status/1.0/commits/abc123''
       [(''state'', ''INPROGRESS''), (''url'', ''http://ci/builds/7''), (''key'', ''runtests''),
        (''description'', ''Build started.'')]], 1, Some (InFile (KeyError ''lib'')))
   \<and> sendMessage_x False (answering_x 201 []) example_urlparse ''Build done.''
      [pr_build ''https://host/prs/42'',
       pr_build ''http://[x/prs/1'',
       pr_build ''https://host/prs/7''] 0 =
      ([POST ''/rest/api/1.0/prs/42/comments'' [(''text'', ''Build done.'')]], 1, Some (Collaborator ''ValueError''))
   \<and> sourcestamps (buildset (example_build False None [''buildername'' \<mapsto> PyStr ''runtests'']
        [\<lparr>codebase = ''app'', revision = Some ''abc123''\<rparr>, \<lparr>codebase = ''doc'', revision = Some ''d0c''\<rparr>])) =
      [\<lparr>codebase = ''app'', revision = Some ''abc123''\<rparr>] @ \<lparr>codebase = ''doc'', revision = Some ''d0c''\<rparr> # []
   \<and> send_x (reconfigService None None None None False) rendering (answering_x 500 ''server error'')
      (with_sourcestamps (example_build False None [''buildername'' \<mapsto> PyStr ''runtests'']
        [\<lparr>codebase = ''app'', revision = Some ''abc123''\<rparr>, \<lparr>codebase = ''doc'', revision = Some ''d0c''\<rparr>])
        [\<lparr>codebase = ''app'', revision = Some ''abc123''\<rparr>]) 0 =
      ([POST ''/rest/build-status/1.0/commits/abc123''
       [(''state'', ''INPROGRESS''), (''url'', ''http://ci/builds/7''), (''key'', ''runtests''),
        (''description'', ''Build started.'')],
        LogError ''{code}: Unable to send Bitbucket Server status: {content}''
       [(''code'', ArgInt 500), (''content'', ArgStr ''server error'')]], 1, None)
   \<and> collect_pr_urls
      [pr_build ''https://host/prs/42'',
       pr_build ''https://host/prs/42'',
       pr_build ''https://host/prs/7''] [] =
      Inr ([] @ PyStr ''https://host/prs/42'' # [PyStr ''https://host/prs/7''])
   \<and> post_comments_x False (answering_x 500 ''server error'') example_urlparse ''Build done.'' [] 0 =
      ([], 0, None)
   \<and> resolve_sha (getProperty (properties (example_build False None [''buildername'' \<mapsto> PyStr ''runtests'']
        [\<lparr>codebase = ''app'', revision = Some ''abc123''\<rparr>, \<lparr>codebase = ''doc'', revision = Some ''d0c''\<rparr>])) ''got_revision'' PyNone)
      \<lparr>codebase = ''doc'', revision = Some ''d0c''\<rparr> = Inr (Some ''d0c'')
   \<and> status_payload_x (reconfigService None None None None False) rendering
      (example_build False None [''buildername'' \<mapsto> PyStr ''runtests'']
        [\<lparr>codebase = ''app'', revision = Some ''abc123''\<rparr>, \<lparr>codebase = ''doc'', revision = Some ''d0c''\<rparr>])
      (fst (build_status (reconfigService None None None None False) (example_build False None [''buildername'' \<mapsto> PyStr ''runtests'']
        [\<lparr>codebase = ''app'', revision = Some ''abc123''\<rparr>, \<lparr>codebase = ''doc'', revision = Some ''d0c''\<rparr>])))
      (snd (build_status (reconfigService None None None None False) (example_build False None [''buildername'' \<mapsto> PyStr ''runtests'']
        [\<lparr>codebase = ''app'', revision = Some ''abc123''\<rparr>, \<lparr>codebase = ''doc'', revision = Some ''d0c''\<rparr>]))) =
      Inr [(''state'', ''INPROGRESS''), (''url'', ''http://ci/builds/7''), (''key'', ''runtests''),
        (''description'', ''Build started.'')]
   \<and> answering_x 500 ''server error'' 1 (STATUS_API_URL ''d0c'')
      [(''state'', ''INPROGRESS''), (''url'', ''http://ci/builds/7''), (''key'', ''runtests''),
        (''description'', ''Build started.'')] =
      (Inr \<lparr>code_x = 500, content_x = Inr ''server error''\<rparr>, 2)
   \<and> send_x (reconfigService None None None None False) rendering (answering_x 500 ''server error'')
      (with_sourcestamps (example_build False None [''buildername'' \<mapsto> PyStr ''runtests'']
        [\<lparr>codebase = ''app'', revision = Some ''abc123''\<rparr>, \<lparr>codebase = ''doc'', revision = Some ''d0c''\<rparr>]) []) 2 =
      ([], 2, None)
   \<and> example_urlparse (PyStr ''https://host/prs/42'') = Inr ''/prs/42''
   \<and> answering_x 500 ''server error'' 0 (COMMENT_API_URL ''/prs/42'')
      [(''text'', ''Build done.'')] =
      (Inr \<lparr>code_x = 500, content_x = Inr ''server error''\<rparr>, 1)
   \<and> post_comments_x False (answering_x 500 ''server error'') example_urlparse ''Build done.''
      [PyStr ''https://host/prs/7''] 1 =
      ([POST ''/rest/api/1.0/prs/7/comments'' [(''text'', ''Build done.'')],
        LogError ''{code}: Unable to send a comment: {content}''
       [(''code'', ArgInt 500), (''content'', ArgStr ''server error'')]], 2, None)
   \<and> send_x (reconfigService None None None None False) rendering (answering_x 500 ''server error'')
      (example_build False None [''buildername'' \<mapsto> PyStr ''runtests'']
        [\<lparr>codebase = ''app'', revision = Some ''abc123''\<rparr>, \<lparr>codebase = ''doc'', revision = Some ''d0c''\<rparr>]) 0 =
      ([POST ''/rest/build-status/1.0/commits/abc123''
       [(''state'', ''INPROGRESS''), (''url'', ''http://ci/builds/7''), (''key'', ''runtests''),
        (''description'', ''Build started.'')],
        LogError ''{code}: Unable to send Bitbucket Server status: {content}''
       [(''code'', ArgInt 500), (''content'', ArgStr ''server error'')],
        POST ''/rest/build-status/1.0/commits/d0c''
       [(''state'', ''INPROGRESS''), (''url'', ''http://ci/builds/7''), (''key'', ''runtests''),
        (''description'', ''Build started.'')],
        LogError ''{code}: Unable to send Bitbucket Server status: {content}''
       [(''code'', ArgInt 500), (''content'', ArgStr ''server error'')]], 2, None)
   \<and> sendMessage_x False (answering_x 500 ''server error'') example_urlparse ''Build done.''
      [pr_build ''https://host/prs/42'',
       pr_build ''https://host/prs/42'',
       pr_build ''https://host/prs/7''] 0 =
      ([POST ''/rest/api/1.0/prs/42/comments'' [(''text'', ''Build done.'')],
        LogError ''{code}: Unable to send a comment: {content}''
       [(''code'', ArgInt 500), (''content'', ArgStr ''server error'')],
        POST ''/rest/api/1.0/prs/7/comments'' [(''text'', ''Build done.'')],
        LogError ''{code}: Unable to send a comment: {content}''
       [(''code'', ArgInt 500), (''content'', ArgStr ''server error'')]], 2, None)
   \<and> sourcestamps (buildset (example_build False None [''buildername'' \<mapsto> PyStr ''runtests'']
        [\<lparr>codebase = ''app'', revision = Some ''abc123''\<rparr>, \<lparr>codebase = ''doc'', revision = Some ''d0c''\<rparr>, \<lparr>codebase = ''web'', revision = Some ''7e57''\<rparr>])) =
      [\<lparr>codebase = ''app'', revision = Some ''abc123''\<rparr>] @ \<lparr>codebase = ''doc'', revision = Some ''d0c''\<rparr> # [\<lparr>codebase = ''web'', revision = Some ''7e57''\<rparr>]
   \<and> send_x (reconfigService None None None None False) rendering (failing_from 1 204)
      (with_sourcestamps (example_build False None [''buildername'' \<mapsto> PyStr ''runtests'']
        [\<lparr>codebase = ''app'', revision = Some ''abc123''\<rparr>, \<lparr>codebase = ''doc'', revision = Some ''d0c''\<rparr>, \<lparr>codebase = ''web'', revision = Some ''7e57''\<rparr>])
        [\<lparr>codebase = ''app'', revision = Some ''abc123''\<rparr>]) 0 =
      ([POST ''/rest/build-status/1.0/commits/abc123''
       [(''state'', ''INPROGRESS''), (''url'', ''http://ci/builds/7''), (''key'', ''runtests''),
        (''description'', ''Build started.'')]], 1, None)
   \<and> collect_pr_urls
      [pr_build ''https://host/prs/42'',
       pr_build ''https://host/prs/7'',
       pr_build ''https://host/prs/9''] [] =
      Inr ([PyStr ''https://host/prs/42''] @ PyStr ''https://host/prs/7'' # [PyStr ''https://host/prs/9''])
   \<and> post_comments_x False (failing_from 1 201) example_urlparse ''Build done.''
      [PyStr ''https://host/prs/42''] 0 =
      ([POST ''/rest/api/1.0/prs/42/comments'' [(''text'', ''Build done.'')]], 1, None)
   \<and> resolve_sha (getProperty (properties (example_build False None [''buildername'' \<mapsto> PyStr ''runtests'']
        [\<lparr>codebase = ''app'', revision = Some ''abc123''\<rparr>, \<lparr>codebase = ''doc'', revision = Some ''d0c''\<rparr>, \<lparr>codebase = ''web'', revision = Some ''7e57''\<rparr>])) ''got_revision'' PyNone)
      \<lparr>codebase = ''doc'', revision = Some ''d0c''\<rparr> = Inr (Some ''d0c'')
   \<and> status_payload_x (reconfigService None None None None False) rendering
      (example_build False None [''buildername'' \<mapsto> PyStr ''runtests'']
        [\<lparr>codebase = ''app'', revision = Some ''abc123''\<rparr>, \<lparr>codebase = ''doc'', revision = Some ''d0c''\<rparr>, \<lparr>codebase = ''web'', revision = Some ''7e57''\<rparr>])
      (fst (build_status (reconfigService None None None None False) (example_build False None [''buildername'' \<mapsto> PyStr ''runtests'']
        [\<lparr>codebase = ''app'', revision = Some ''abc123''\<rparr>, \<lparr>codebase = ''doc'', revision = Some ''d0c''\<rparr>, \<lparr>codebase = ''web'', revision = Some ''7e57''\<rparr>])))
      (snd (build_status (reconfigService None None None None False) (example_build False None [''buildername'' \<mapsto> PyStr ''runtests'']
        [\<lparr>codebase = ''app'', revision = Some ''abc123''\<rparr>, \<lparr>codebase = ''doc'', revision = Some ''d0c''\<rparr>, \<lparr>codebase = ''web'', revision = Some ''7e57''\<rparr>]))) =
      Inr [(''state'', ''INPROGRESS''), (''url'', ''http://ci/builds/7''), (''key'', ''runtests''),
        (''description'', ''Build started.'')]
   \<and> failing_from 1 204 1 (STATUS_API_URL ''d0c'')
      [(''state'', ''INPROGRESS''), (''url'', ''http://ci/builds/7''), (''key'', ''runtests''),
        (''description'', ''Build started.'')] =
      (Inl ''ConnectionRefusedError'', 2)
   \<and> example_urlparse (PyStr ''https://host/prs/7'') = Inr ''/prs/7''
   \<and> failing_from 1 201 1 (COMMENT_API_URL ''/prs/7'') [(''text'', ''Build done.'')] =
      (Inl ''ConnectionRefusedError'', 2)
   \<and> send_x (reconfigService None None None None False) rendering (failing_from 1 204)
      (example_build False None [''buildername'' \<mapsto> PyStr ''runtests'']
        [\<lparr>codebase = ''app'', revision = Some ''abc123''\<rparr>, \<lparr>codebase = ''doc'', revision = Some ''d0c''\<rparr>, \<lparr>codebase = ''web'', revision = Some ''7e57''\<rparr>]) 0 =
      ([POST ''/rest/build-status/1.0/commits/abc123''
       [(''state'', ''INPROGRESS''), (''url'', ''http://ci/builds/7''), (''key'', ''runtests''),
        (''description'', ''Build started.'')],
        POST ''/rest/build-status/1.0/commits/d0c''
       [(''state'', ''INPROGRESS''), (''url'', ''http://ci/builds/7''), (''key'', ''runtests''),
        (''description'', ''Build started.'')]], 2, Some (Collaborator ''ConnectionRefusedError''))
   \<and> sendMessage_x False (failing_from 1 201) example_urlparse ''Build done.''
      [pr_build ''https://host/prs/42'',
       pr_build ''https://host/prs/7'',
       pr_build ''https://host/prs/9''] 0 =
      ([POST ''/rest/api/1.0/prs/42/comments'' [(''text'', ''Build done.'')],
        POST ''/rest/api/1.0/prs/7/comments'' [(''text'', ''Build done.'')]], 2, Some (Collaborator ''ConnectionRefusedError''))"
proof -
  have a1: "sourcestamps (buildset (example_build False None
        [''buildername'' \<mapsto> PyStr ''runtests'', ''got_revision'' \<mapsto> PyDict [(''app'', Some ''111'')]]
        example_stamps)) =
      [\<lparr>codebase = ''app'', revision = Some ''abc123''\<rparr>] @ \<lparr>codebase = ''lib'', revision = None\<rparr> # [\<lparr>codebase = ''doc'', revision = Some ''d0c''\<rparr>]"
    by (simp add: eval_defs eval_x_defs)
  have a2: "send_x (reconfigService None None None None False) rendering (answering_x 204 [])
      (with_sourcestamps (example_build False None
        [''buildername'' \<mapsto> PyStr ''runtests'', ''got_revision'' \<mapsto> PyDict [(''app'', Some ''111'')]]
        example_stamps)
        [\<lparr>codebase = ''app'', revision = Some ''abc123''\<rparr>]) 0 =
      ([POST ''/rest/build-status/1.0/commits/abc123''
       [(''state'', ''INPROGRESS''), (''url'', ''http://ci/builds/7''), (''key'', ''runtests''),
        (''description'', ''Build started.'')]], 1, None)"
    by (simp add: eval_defs eval_x_defs)
  have a3: "collect_pr_urls
      [pr_build ''https://host/prs/42'',
       pr_build ''http://[x/prs/1'',
       pr_build ''https://host/prs/7''] [] =
      Inr ([PyStr ''https://host/prs/42''] @ PyStr ''http://[x/prs/1'' # [PyStr ''https://host/prs/7''])"
    by (simp add: eval_defs eval_x_defs)
  have a4: "post_comments_x False (answering_x 201 []) example_urlparse ''Build done.''
      [PyStr ''https://host/prs/42''] 0 =
      ([POST ''/rest/api/1.0/prs/42/comments'' [(''text'', ''Build done.'')]], 1, None)"
    by (simp add: eval_defs eval_x_defs)
  have ax1: "resolve_sha (getProperty (properties (example_build False None
        [''buildername'' \<mapsto> PyStr ''runtests'', ''got_revision'' \<mapsto> PyDict [(''app'', Some ''111'')]]
        example_stamps)) ''got_revision'' PyNone)
      \<lparr>codebase = ''lib'', revision = None\<rparr> = Inl (KeyError ''lib'')"
    by (simp add: eval_defs eval_x_defs)
  have ax2: "example_urlparse (PyStr ''http://[x/prs/1'') = Inl ''ValueError''"
    by (simp add: eval_defs eval_x_defs)
  have ac1: "send_x (reconfigService None None None None False) rendering (answering_x 204 [])
      (example_build False None
        [''buildername'' \<mapsto> PyStr ''runtests'', ''got_revision'' \<mapsto> PyDict [(''app'', Some ''111'')]]
        example_stamps) 0 =
      ([POST ''/rest/build-status/1.0/commits/abc123''
       [(''state'', ''INPROGRESS''), (''url'', ''http://ci/builds/7''), (''key'', ''runtests''),
        (''description'', ''Build started.'')]], 1, Some (InFile (KeyError ''lib'')))"
    using ax1 ax2
      exceptions_propagate[OF a1 a2 a3 a4, where ke = "KeyError ''lib''" and ce = "''ValueError''"
        and e = "[]" and sha = "[]" and payload = "[]" and resp = "\<lparr>code_x = 0, content_x = Inr []\<rparr>" and h_next = 0 and t = "[]" and evs = "[]" and h' = 0 and r = None and path = "[]" and cresp = "\<lparr>code_x = 0, content_x = Inr []\<rparr>" and c_next = 0 and ct = "[]" and cevs = "[]" and c' = 0 and cr = None]
    by (simp add: STATUS_API_URL_def COMMENT_API_URL_def)
  have ac2: "sendMessage_x False (answering_x 201 []) example_urlparse ''Build done.''
      [pr_build ''https://host/prs/42'',
       pr_build ''http://[x/prs/1'',
       pr_build ''https://host/prs/7''] 0 =
      ([POST ''/rest/api/1.0/prs/42/comments'' [(''text'', ''Build done.'')]], 1, Some (Collaborator ''ValueError''))"
    using ax1 ax2
      exceptions_propagate[OF a1 a2 a3 a4, where ke = "KeyError ''lib''" and ce = "''ValueError''"
        and e = "[]" and sha = "[]" and payload = "[]" and resp = "\<lparr>code_x = 0, content_x = Inr []\<rparr>" and h_next = 0 and t = "[]" and evs = "[]" and h' = 0 and r = None and path = "[]" and cresp = "\<lparr>code_x = 0, content_x = Inr []\<rparr>" and c_next = 0 and ct = "[]" and cevs = "[]" and c' = 0 and cr = None]
    by (simp add: STATUS_API_URL_def COMMENT_API_URL_def)
  have b1: "sourcestamps (buildset (example_build False None [''buildername'' \<mapsto> PyStr ''runtests'']
        [\<lparr>codebase = ''app'', revision = Some ''abc123''\<rparr>, \<lparr>codebase = ''doc'', revision = Some ''d0c''\<rparr>])) =
      [\<lparr>codebase = ''app'', revision = Some ''abc123''\<rparr>] @ \<lparr>codebase = ''doc'', revision = Some ''d0c''\<rparr> # []"
    by (simp add: eval_defs eval_x_defs)
  have b2: "send_x (reconfigService None None None None False) rendering (answering_x 500 ''server error'')
      (with_sourcestamps (example_build False None [''buildername'' \<mapsto> PyStr ''runtests'']
        [\<lparr>codebase = ''app'', revision = Some ''abc123''\<rparr>, \<lparr>codebase = ''doc'', revision = Some ''d0c''\<rparr>])
        [\<lparr>codebase = ''app'', revision = Some ''abc123''\<rparr>]) 0 =
      ([POST ''/rest/build-status/1.0/commits/abc123''
       [(''state'', ''INPROGRESS''), (''url'', ''http://ci/builds/7''), (''key'', ''runtests''),
        (''description'', ''Build started.'')],
        LogError ''{code}: Unable to send Bitbucket Server status: {content}''
       [(''code'', ArgInt 500), (''content'', ArgStr ''server error'')]], 1, None)"
    by (simp add: eval_defs eval_x_defs)
  have b3: "collect_pr_urls
      [pr_build ''https://host/prs/42'',
       pr_build ''https://host/prs/42'',
       pr_build ''https://host/prs/7''] [] =
      Inr ([] @ PyStr ''https://host/prs/42'' # [PyStr ''https://host/prs/7''])"
    by (simp add: eval_defs eval_x_defs)
  have b4: "post_comments_x False (answering_x 500 ''server error'') example_urlparse ''Build done.'' [] 0 =
      ([], 0, None)"
    by (simp add: eval_defs eval_x_defs)
  have bx1: "resolve_sha (getProperty (properties (example_build False None [''buildername'' \<mapsto> PyStr ''runtests'']
        [\<lparr>codebase = ''app'', revision = Some ''abc123''\<rparr>, \<lparr>codebase = ''doc'', revision = Some ''d0c''\<rparr>])) ''got_revision'' PyNone)
      \<lparr>codebase = ''doc'', revision = Some ''d0c''\<rparr> = Inr (Some ''d0c'')"
    by (simp add: eval_defs eval_x_defs)
  have bx2: "status_payload_x (reconfigService None None None None False) rendering
      (example_build False None [''buildername'' \<mapsto> PyStr ''runtests'']
        [\<lparr>codebase = ''app'', revision = Some ''abc123''\<rparr>, \<lparr>codebase = ''doc'', revision = Some ''d0c''\<rparr>])
      (fst (build_status (reconfigService None None None None False) (example_build False None [''buildername'' \<mapsto> PyStr ''runtests'']
        [\<lparr>codebase = ''app'', revision = Some ''abc123''\<rparr>, \<lparr>codebase = ''doc'', revision = Some ''d0c''\<rparr>])))
      (snd (build_status (reconfigService None None None None False) (example_build False None [''buildername'' \<mapsto> PyStr ''runtests'']
        [\<lparr>codebase = ''app'', revision = Some ''abc123''\<rparr>, \<lparr>codebase = ''doc'', revision = Some ''d0c''\<rparr>]))) =
      Inr [(''state'', ''INPROGRESS''), (''url'', ''http://ci/builds/7''), (''key'', ''runtests''),
        (''description'', ''Build started.'')]"
    by (simp add: eval_defs eval_x_defs)
  have bx3: "answering_x 500 ''server error'' 1 (STATUS_API_URL ''d0c'')
      [(''state'', ''INPROGRESS''), (''url'', ''http://ci/builds/7''), (''key'', ''runtests''),
        (''description'', ''Build started.'')] =
      (Inr \<lparr>code_x = 500, content_x = Inr ''server error''\<rparr>, 2)"
    by (simp add: eval_defs eval_x_defs)
  have bx4: "send_x (reconfigService None None None None False) rendering (answering_x 500 ''server error'')
      (with_sourcestamps (example_build False None [''buildername'' \<mapsto> PyStr ''runtests'']
        [\<lparr>codebase = ''app'', revision = Some ''abc123''\<rparr>, \<lparr>codebase = ''doc'', revision = Some ''d0c''\<rparr>]) []) 2 =
      ([], 2, None)"
    by (simp add: eval_defs eval_x_defs)
  have bx5: "example_urlparse (PyStr ''https://host/prs/42'') = Inr ''/prs/42''"
    by (simp add: eval_defs eval_x_defs)
  have bx6: "answering_x 500 ''server error'' 0 (COMMENT_API_URL ''/prs/42'')
      [(''text'', ''Build done.'')] =
      (Inr \<lparr>code_x = 500, content_x = Inr ''server error''\<rparr>, 1)"
    by (simp add: eval_defs eval_x_defs)
  have bx7: "post_comments_x False (answering_x 500 ''server error'') example_urlparse ''Build done.''
      [PyStr ''https://host/prs/7''] 1 =
      ([POST ''/rest/api/1.0/prs/7/comments'' [(''text'', ''Build done.'')],
        LogError ''{code}: Unable to send a comment: {content}''
       [(''code'', ArgInt 500), (''content'', ArgStr ''server error'')]], 2, None)"
    by (simp add: eval_defs eval_x_defs)
  have bc1: "send_x (reconfigService None None None None False) rendering (answering_x 500 ''server error'')
      (example_build False None [''buildername'' \<mapsto> PyStr ''runtests'']
        [\<lparr>codebase = ''app'', revision = Some ''abc123''\<rparr>, \<lparr>codebase = ''doc'', revision = Some ''d0c''\<rparr>]) 0 =
      ([POST ''/rest/build-status/1.0/commits/abc123''
       [(''state'', ''INPROGRESS''), (''url'', ''http://ci/builds/7''), (''key'', ''runtests''),
        (''description'', ''Build started.'')],
        LogError ''{code}: Unable to send Bitbucket Server status: {content}''
       [(''code'', ArgInt 500), (''content'', ArgStr ''server error'')],
        POST ''/rest/build-status/1.0/commits/d0c''
       [(''state'', ''INPROGRESS''), (''url'', ''http://ci/builds/7''), (''key'', ''runtests''),
        (''description'', ''Build started.'')],
        LogError ''{code}: Unable to send Bitbucket Server status: {content}''
       [(''code'', ArgInt 500), (''content'', ArgStr ''server error'')]], 2, None)"
    using bx1 bx2 bx3 bx4 bx5 bx6 bx7
      exceptions_propagate[OF b1 b2 b3 b4, where sha = "''d0c''" and payload = "[(''state'', ''INPROGRESS''), (''url'', ''http://ci/builds/7''), (''key'', ''runtests''),
        (''description'', ''Build started.'')]"
        and resp = "\<lparr>code_x = 500, content_x = Inr ''server error''\<rparr>" and h_next = 2 and t = "''server error''"
        and evs = "[]" and h' = 2 and r = None
        and path = "''/prs/42''" and cresp = "\<lparr>code_x = 500, content_x = Inr ''server error''\<rparr>" and c_next = 1 and ct = "''server error''"
        and cevs = "[POST ''/rest/api/1.0/prs/7/comments'' [(''text'', ''Build done.'')],
        LogError ''{code}: Unable to send a comment: {content}''
       [(''code'', ArgInt 500), (''content'', ArgStr ''server error'')]]" and c' = 2 and cr = None
        and ke = "KeyError []" and e = "[]" and ce = "[]"]
    by (simp add: STATUS_API_URL_def COMMENT_API_URL_def)
  have bc2: "sendMessage_x False (answering_x 500 ''server error'') example_urlparse ''Build done.''
      [pr_build ''https://host/prs/42'',
       pr_build ''https://host/prs/42'',
       pr_build ''https://host/prs/7''] 0 =
      ([POST ''/rest/api/1.0/prs/42/comments'' [(''text'', ''Build done.'')],
        LogError ''{code}: Unable to send a comment: {content}''
       [(''code'', ArgInt 500), (''content'', ArgStr ''server error'')],
        POST ''/rest/api/1.0/prs/7/comments'' [(''text'', ''Build done.'')],
        LogError ''{code}: Unable to send a comment: {content}''
       [(''code'', ArgInt 500), (''content'', ArgStr ''server error'')]], 2, None)"
    using bx1 bx2 bx3 bx4 bx5 bx6 bx7
      exceptions_propagate[OF b1 b2 b3 b4, where sha = "''d0c''" and payload = "[(''state'', ''INPROGRESS''), (''url'', ''http://ci/builds/7''), (''key'', ''runtests''),
        (''description'', ''Build started.'')]"
        and resp = "\<lparr>code_x = 500, content_x = Inr ''server error''\<rparr>" and h_next = 2 and t = "''server error''"
        and evs = "[]" and h' = 2 and r = None
        and path = "''/prs/42''" and cresp = "\<lparr>code_x = 500, content_x = Inr ''server error''\<rparr>" and c_next = 1 and ct = "''server error''"
        and cevs = "[POST ''/rest/api/1.0/prs/7/comments'' [(''text'', ''Build done.'')],
        LogError ''{code}: Unable to send a comment: {content}''
       [(''code'', ArgInt 500), (''content'', ArgStr ''server error'')]]" and c' = 2 and cr = None
        and ke = "KeyError []" and e = "[]" and ce = "[]"]
    by (simp add: STATUS_API_URL_def COMMENT_API_URL_def)
  have c1: "sourcestamps (buildset (example_build False None [''buildername'' \<mapsto> PyStr ''runtests'']
        [\<lparr>codebase = ''app'', revision = Some ''abc123''\<rparr>, \<lparr>codebase = ''doc'', revision = Some ''d0c''\<rparr>, \<lparr>codebase = ''web'', revision = Some ''7e57''\<rparr>])) =
      [\<lparr>codebase = ''app'', revision = Some ''abc123''\<rparr>] @ \<lparr>codebase = ''doc'', revision = Some ''d0c''\<rparr> # [\<lparr>codebase = ''web'', revision = Some ''7e57''\<rparr>]"
    by (simp add: eval_defs eval_x_defs)
  have c2: "send_x (reconfigService None None None None False) rendering (failing_from 1 204)
      (with_sourcestamps (example_build False None [''buildername'' \<mapsto> PyStr ''runtests'']
        [\<lparr>codebase = ''app'', revision = Some ''abc123''\<rparr>, \<lparr>codebase = ''doc'', revision = Some ''d0c''\<rparr>, \<lparr>codebase = ''web'', revision = Some ''7e57''\<rparr>])
        [\<lparr>codebase = ''app'', revision = Some ''abc123''\<rparr>]) 0 =
      ([POST ''/rest/build-status/1.0/commits/abc123''
       [(''state'', ''INPROGRESS''), (''url'', ''http://ci/builds/7''), (''key'', ''runtests''),
        (''description'', ''Build started.'')]], 1, None)"
    by (simp add: eval_defs eval_x_defs)
  have c3: "collect_pr_urls
      [pr_build ''https://host/prs/42'',
       pr_build ''https://host/prs/7'',
       pr_build ''https://host/prs/9''] [] =
      Inr ([PyStr ''https://host/prs/42''] @ PyStr ''https://host/prs/7'' # [PyStr ''https://host/prs/9''])"
    by (simp add: eval_defs eval_x_defs)
  have c4: "post_comments_x False (failing_from 1 201) example_urlparse ''Build done.''
      [PyStr ''https://host/prs/42''] 0 =
      ([POST ''/rest/api/1.0/prs/42/comments'' [(''text'', ''Build done.'')]], 1, None)"
    by (simp add: eval_defs eval_x_defs)
  have cx1: "resolve_sha (getProperty (properties (example_build False None [''buildername'' \<mapsto> PyStr ''runtests'']
        [\<lparr>codebase = ''app'', revision = Some ''abc123''\<rparr>, \<lparr>codebase = ''doc'', revision = Some ''d0c''\<rparr>, \<lparr>codebase = ''web'', revision = Some ''7e57''\<rparr>])) ''got_revision'' PyNone)
      \<lparr>codebase = ''doc'', revision = Some ''d0c''\<rparr> = Inr (Some ''d0c'')"
    by (simp add: eval_defs eval_x_defs)
  have cx2: "status_payload_x (reconfigService None None None None False) rendering
      (example_build False None [''buildername'' \<mapsto> PyStr ''runtests'']
        [\<lparr>codebase = ''app'', revision = Some ''abc123''\<rparr>, \<lparr>codebase = ''doc'', revision = Some ''d0c''\<rparr>, \<lparr>codebase = ''web'', revision = Some ''7e57''\<rparr>])
      (fst (build_status (reconfigService None None None None False) (example_build False None [''buildername'' \<mapsto> PyStr ''runtests'']
        [\<lparr>codebase = ''app'', revision = Some ''abc123''\<rparr>, \<lparr>codebase = ''doc'', revision = Some ''d0c''\<rparr>, \<lparr>codebase = ''web'', revision = Some ''7e57''\<rparr>])))
      (snd (build_status (reconfigService None None None None False) (example_build False None [''buildername'' \<mapsto> PyStr ''runtests'']
        [\<lparr>codebase = ''app'', revision = Some ''abc123''\<rparr>, \<lparr>codebase = ''doc'', revision = Some ''d0c''\<rparr>, \<lparr>codebase = ''web'', revision = Some ''7e57''\<rparr>]))) =
      Inr [(''state'', ''INPROGRESS''), (''url'', ''http://ci/builds/7''), (''key'', ''runtests''),
        (''description'', ''Build started.'')]"
    by (simp add: eval_defs eval_x_defs)
  have cx3: "failing_from 1 204 1 (STATUS_API_URL ''d0c'')
      [(''state'', ''INPROGRESS''), (''url'', ''http://ci/builds/7''), (''key'', ''runtests''),
        (''description'', ''Build started.'')] =
      (Inl ''ConnectionRefusedError'', 2)"
    by (simp add: eval_defs eval_x_defs)
  have cx4: "example_urlparse (PyStr ''https://host/prs/7'') = Inr ''/prs/7''"
    by (simp add: eval_defs eval_x_defs)
  have cx5: "failing_from 1 201 1 (COMMENT_API_URL ''/prs/7'') [(''text'', ''Build done.'')] =
      (Inl ''ConnectionRefusedError'', 2)"
    by (simp add: eval_defs eval_x_defs)
  have cc1: "send_x (reconfigService None None None None False) rendering (failing_from 1 204)
      (example_build False None [''buildername'' \<mapsto> PyStr ''runtests'']
        [\<lparr>codebase = ''app'', revision = Some ''abc123''\<rparr>, \<lparr>codebase = ''doc'', revision = Some ''d0c''\<rparr>, \<lparr>codebase = ''web'', revision = Some ''7e57''\<rparr>]) 0 =
      ([POST ''/rest/build-status/1.0/commits/abc123''
       [(''state'', ''INPROGRESS''), (''url'', ''http://ci/builds/7''), (''key'', ''runtests''),
        (''description'', ''Build started.'')],
        POST ''/rest/build-status/1.0/commits/d0c''
       [(''state'', ''INPROGRESS''), (''url'', ''http://ci/builds/7''), (''key'', ''runtests''),
        (''description'', ''Build started.'')]], 2, Some (Collaborator ''ConnectionRefusedError''))"
    using cx1 cx2 cx3 cx4 cx5
      exceptions_propagate[OF c1 c2 c3 c4, where sha = "''d0c''" and payload = "[(''state'', ''INPROGRESS''), (''url'', ''http://ci/builds/7''), (''key'', ''runtests''),
        (''description'', ''Build started.'')]"
        and e = "''ConnectionRefusedError''" and h_next = 2
        and path = "''/prs/7''" and ce = "''ConnectionRefusedError''" and c_next = 2
        and ke = "KeyError []" and resp = "\<lparr>code_x = 0, content_x = Inr []\<rparr>" and t = "[]" and evs = "[]" and h' = 0 and r = None and cresp = "\<lparr>code_x = 0, content_x = Inr []\<rparr>" and ct = "[]" and cevs = "[]" and c' = 0 and cr = None]
    by (simp add: STATUS_API_URL_def COMMENT_API_URL_def)
  have cc2: "sendMessage_x False (failing_from 1 201) example_urlparse ''Build done.''
      [pr_build ''https://host/prs/42'',
       pr_build ''https://host/prs/7'',
       pr_build ''https://host/prs/9''] 0 =
      ([POST ''/rest/api/1.0/prs/42/comments'' [(''text'', ''Build done.'')],
        POST ''/rest/api/1.0/prs/7/comments'' [(''text'', ''Build done.'')]], 2, Some (Collaborator ''ConnectionRefusedError''))"
    using cx1 cx2 cx3 cx4 cx5
      exceptions_propagate[OF c1 c2 c3 c4, where sha = "''d0c''" and payload = "[(''state'', ''INPROGRESS''), (''url'', ''http://ci/builds/7''), (''key'', ''runtests''),
        (''description'', ''Build started.'')]"
        and e = "''ConnectionRefusedError''" and h_next = 2
        and path = "''/prs/7''" and ce = "''ConnectionRefusedError''" and c_next = 2
        and ke = "KeyError []" and resp = "\<lparr>code_x = 0, content_x = Inr []\<rparr>" and t = "[]" and evs = "[]" and h' = 0 and r = None and cresp = "\<lparr>code_x = 0, content_x = Inr []\<rparr>" and ct = "[]" and cevs = "[]" and c' = 0 and cr = None]
    by (simp add: STATUS_API_URL_def COMMENT_API_URL_def)
  show ?thesis
    using a1 a2 a3 a4 b1 b2 b3 b4 c1 c2 c3 c4 ax1 ax2 bx1 bx2 bx3 bx4 bx5 bx6 bx7 cx1 cx2 cx3 cx4 cx5 ac1 ac2 bc1 bc2 cc1 cc2
    by (intro conjI)
qed




subsection \<open>How many statuses and comments\<close>






text \<open>
  Claim C8. \<^verbatim>\<open>isMessageNeeded\<close> is false for a build without the property
  \<^verbatim>\<open>pullrequesturl\<close>, whatever the base class answers; and when
  \<^verbatim>\<open>sendMessage\<close> gets the builds that \<^verbatim>\<open>isMessageNeeded\<close> lets through,
  every comment it posts goes to the URL of a build that has the property.
\<close>

theorem no_pullrequesturl_no_comment:
  "(''pullrequesturl'' \<notin> dom (properties b) \<longrightarrow> isMessageNeeded base b = False)
   \<and> (POST path payload
         \<in> set (fst (sendMessage v post url_path body (filter (isMessageNeeded base) builds) h)) \<longrightarrow>
       (\<exists>x \<in> set builds. \<exists>u. properties x ''pullrequesturl'' = Some u
          \<and> path = COMMENT_API_URL (url_path u)))"
proof -
  have a: "''pullrequesturl'' \<notin> dom (properties b) \<longrightarrow> isMessageNeeded base b = False"
    by (simp add: isMessageNeeded_def)
  have b: "\<exists>x \<in> set builds. \<exists>u. properties x ''pullrequesturl'' = Some u
          \<and> path = COMMENT_API_URL (url_path u)"
    if p: "POST path payload
         \<in> set (fst (sendMessage v post url_path body (filter (isMessageNeeded base) builds) h))"
  proof -
    let ?batch = "filter (isMessageNeeded base) builds"
    obtain pr_urls where c: "collect_pr_urls ?batch [] = Inr pr_urls"
      using p by (cases "collect_pr_urls ?batch []") (simp_all add: sendMessage_def)
    from p have "POST path payload \<in> set (posts (sendMessage v post url_path body ?batch h))"
      by (simp add: posts_def)
    then obtain u where u: "u \<in> set pr_urls" "path = COMMENT_API_URL (url_path u)"
      unfolding sendMessage_posts(1)[OF c] by auto
    from u(1) collect_pr_urls_set[OF c]
    obtain x where x: "x \<in> set builds" "isMessageNeeded base x"
      "u = getProperty (properties x) ''pullrequesturl'' PyNone"
      by auto
    from isMessageNeeded_dom[OF x(2)] x(3) have "properties x ''pullrequesturl'' = Some u"
      by (auto simp: getProperty_def)
    with x(1) u(2) show ?thesis by blast
  qed
  from a b show ?thesis by blast
qed


theorem no_pullrequesturl_no_comment_witness:
  "''pullrequesturl'' \<notin> dom (properties (example_build True (Some SUCCESS) [''buildername'' \<mapsto> PyStr ''runtests''] []))
   \<and> isMessageNeeded (\<lambda>b. True) (example_build True (Some SUCCESS) [''buildername'' \<mapsto> PyStr ''runtests''] []) = False
   \<and> POST ''/rest/api/1.0/prs/42/comments'' [(''text'', ''Build done.'')]
      \<in> set (fst (sendMessage False (answering 201 []) example_url_path ''Build done.''
        (filter (isMessageNeeded (\<lambda>b. True))
         [(example_build True (Some SUCCESS) [''buildername'' \<mapsto> PyStr ''runtests''] []),
          pr_build ''https://host/prs/42'']) 0))
   \<and> (\<exists>x \<in> set [(example_build True (Some SUCCESS) [''buildername'' \<mapsto> PyStr ''runtests''] []),
          pr_build ''https://host/prs/42''].
        \<exists>u. properties x ''pullrequesturl'' = Some u
          \<and> ''/rest/api/1.0/prs/42/comments'' = COMMENT_API_URL (example_url_path u))"
  using no_pullrequesturl_no_comment[of "example_build True (Some SUCCESS) [''buildername'' \<mapsto> PyStr ''runtests''] []" "\<lambda>b. True"
      "''/rest/api/1.0/prs/42/comments''" "[(''text'', ''Build done.'')]" False "answering 201 []"
      example_url_path "''Build done.''"
      "[(example_build True (Some SUCCESS) [''buildername'' \<mapsto> PyStr ''runtests''] []),
          pr_build ''https://host/prs/42'']" 0]
  by (simp add: eval_defs example_stamps_def example_url_path_def pr_build_def Let_def)

end
